theory Spec2Isabelle
  imports Complex_Main
begin

section \<open>Values of the program\<close>

text \<open>
  The exceptions \<^verbatim>\<open>train.py\<close> can end with. \<^verbatim>\<open>exit()\<close> raises
  \<^verbatim>\<open>SystemExit\<close>, which carries the exit status of the process.
\<close>

datatype py_error =
    ZeroDivisionError
  | IndexError
  | ValueError
  | RuntimeError
  | FileNotFoundError
  | SystemExit int

text \<open>
  Floating-point numbers are idealised as reals. A zero-dimensional tensor (the result of
  \<^verbatim>\<open>.mean()\<close>, a loss) is a \<open>scalar\<close>: \<open>None\<close> stands for a value that is not
  a finite number (\<^verbatim>\<open>nan\<close>, \<^verbatim>\<open>inf\<close>), which is what torch returns for the mean
  of an empty tensor and for a tensor divided by zero. A one-dimensional tensor is a list of
  reals, a batch of logits a list of rows (one row of class logits per example).
\<close>

type_synonym scalar = "real option"

type_synonym logits = "real list list"

definition sadd :: "scalar \<Rightarrow> scalar \<Rightarrow> scalar" where
  "sadd a b = (case a of None \<Rightarrow> None | Some x \<Rightarrow> (case b of None \<Rightarrow> None | Some y \<Rightarrow> Some (x + y)))"

definition smul :: "real \<Rightarrow> scalar \<Rightarrow> scalar" where
  "smul c a = (case a of None \<Rightarrow> None | Some x \<Rightarrow> Some (c * x))"

definition sneg :: "scalar \<Rightarrow> scalar" where
  "sneg a = (case a of None \<Rightarrow> None | Some x \<Rightarrow> Some (- x))"

definition sdiv :: "scalar \<Rightarrow> nat \<Rightarrow> scalar" where
  "sdiv a n = (case a of None \<Rightarrow> None | Some x \<Rightarrow> if n = 0 then None else Some (x / real n))"

subsection \<open>Tensor operations used by the losses\<close>

definition mean :: "real list \<Rightarrow> scalar" where
  \<comment> \<open>\<^verbatim>\<open>t.mean()\<close> of a one-dimensional tensor; \<^verbatim>\<open>nan\<close> when it is empty\<close>
  "mean v = (if v = [] then None else Some (sum_list v / real (length v)))"

definition logsumexp :: "logits \<Rightarrow> real list" where
  \<comment> \<open>\<^verbatim>\<open>torch.logsumexp(t, dim=1)\<close>\<close>
  "logsumexp t = map (\<lambda>r. ln (sum_list (map exp r))) t"

definition mean1 :: "logits \<Rightarrow> real list" where
  \<comment> \<open>\<^verbatim>\<open>t.mean(1)\<close>: the mean of every row\<close>
  "mean1 t = map (\<lambda>r. sum_list r / real (length r)) t"

definition neg :: "real list \<Rightarrow> real list" where
  "neg v = map uminus v"

definition relu :: "real list \<Rightarrow> real list" where
  "relu v = map (max 0) v"

definition pow :: "real list \<Rightarrow> nat \<Rightarrow> real list" where
  "pow v n = map (\<lambda>x. x ^ n) v"

definition sub_const :: "real list \<Rightarrow> real \<Rightarrow> real list" where
  \<comment> \<open>tensor minus number\<close>
  "sub_const v c = map (\<lambda>x. x - c) v"

definition const_sub :: "real \<Rightarrow> real list \<Rightarrow> real list" where
  \<comment> \<open>number minus tensor\<close>
  "const_sub c v = map (\<lambda>x. c - x) v"

definition sub :: "real list \<Rightarrow> real list \<Rightarrow> real list" where
  \<comment> \<open>tensor minus tensor, elementwise, on tensors of one length\<close>
  "sub u v = map (\<lambda>(x, y). x - y) (zip u v)"

section \<open>The regularization terms of the training loss\<close>

text \<open>
  A batch of inputs is a list of inputs, and an input is itself a sequence (a tensor indexed
  by its first dimension), so that \<^verbatim>\<open>len(inputs[0])\<close> is the length of the first
  input of the batch; \<^verbatim>\<open>inputs[0]\<close> raises \<^verbatim>\<open>IndexError\<close> on an empty batch.
\<close>

definition split_point :: "'c list list \<Rightarrow> py_error + nat" where
  "split_point inputs = (case inputs of [] \<Rightarrow> Inl IndexError | x # _ \<Rightarrow> Inr (length x))"

text \<open>Lines 183 to 185: the term added to the loss when \<^verbatim>\<open>argv.score == "energy"\<close>.\<close>

definition energy_term :: "'c list list \<Rightarrow> logits \<Rightarrow> py_error + scalar" where
  "energy_term inputs outputs =
     (case split_point inputs of
        Inl e \<Rightarrow> Inl e
      | Inr k \<Rightarrow>
          (let Ec_out = neg (logsumexp (drop k outputs));
               Ec_in = neg (logsumexp (take k outputs))
           in Inr (smul 0.1 (sadd (mean (pow (relu (sub_const Ec_in (- 25))) 2))
                                  (mean (pow (relu (const_sub (- 7) Ec_out)) 2))))))"

text \<open>Line 187: the term added to the loss when \<^verbatim>\<open>argv.score == "OE"\<close>.\<close>

definition oe_term :: "'c list list \<Rightarrow> logits \<Rightarrow> py_error + scalar" where
  "oe_term inputs outputs =
     (case split_point inputs of
        Inl e \<Rightarrow> Inl e
      | Inr k \<Rightarrow>
          Inr (smul 0.5 (sneg (mean (sub (mean1 (drop k outputs))
                                         (logsumexp (drop k outputs)))))))"

text \<open>Lines 182 to 187: the branch on the \<^verbatim>\<open>--score\<close> string; \<open>None\<close> when nothing is added.\<close>

definition regularization :: "string \<Rightarrow> 'c list list \<Rightarrow> logits \<Rightarrow> py_error + scalar option" where
  "regularization score inputs outputs =
     (if score = ''energy'' then map_sum id Some (energy_term inputs outputs)
      else if score = ''OE'' then map_sum id Some (oe_term inputs outputs)
      else Inr None)"

text \<open>
  The energy of an example, and the energy term as the specification words it: the mean of
  the rectified energies, squared.
\<close>

definition energy :: "real list \<Rightarrow> real" where
  "energy r = - ln (sum_list (map exp r))"

definition energy_term_spec :: "nat \<Rightarrow> logits \<Rightarrow> scalar" where
  "energy_term_spec k outputs =
     (let E_in = map energy (take k outputs);
          E_out = map energy (drop k outputs);
          sq = (\<lambda>a. case a of None \<Rightarrow> None | Some x \<Rightarrow> Some (x ^ 2))
      in smul 0.1 (sadd (sq (mean (map (\<lambda>e. max 0 (e + 25)) E_in)))
                        (sq (mean (map (\<lambda>e. max 0 (- 7 - e)) E_out)))))"

section \<open>The criterion and the loss of a training batch\<close>

text \<open>
  \<^verbatim>\<open>nn.CrossEntropyLoss()\<close> on class-index targets, with its default mean reduction:
  the batch sizes must agree (\<^verbatim>\<open>ValueError\<close>), every label must index a class
  (\<^verbatim>\<open>IndexError\<close>), and the loss is the mean over the batch of
  \<open>logsumexp(row) - row[label]\<close>. Labels are class indices of the dataset, so naturals.
\<close>

definition CrossEntropyLoss :: "logits \<Rightarrow> nat list \<Rightarrow> py_error + scalar" where
  "CrossEntropyLoss outputs labels =
     (if length outputs \<noteq> length labels then Inl ValueError
      else if list_ex (\<lambda>(r, l). length r \<le> l) (zip outputs labels) then Inl IndexError
      else Inr (mean (map (\<lambda>(r, l). ln (sum_list (map exp r)) - r ! l) (zip outputs labels))))"

text \<open>Lines 178 to 187: \<^verbatim>\<open>loss = criterion(outputs, labels)\<close>, then \<^verbatim>\<open>loss += ...\<close>.\<close>

definition batch_loss ::
  "(logits \<Rightarrow> nat list \<Rightarrow> py_error + scalar) \<Rightarrow> string \<Rightarrow> 'c list list \<Rightarrow> nat list \<Rightarrow> logits
     \<Rightarrow> py_error + scalar" where
  "batch_loss criterion mode inputs labels outputs =
     (case criterion outputs labels of
        Inl e \<Rightarrow> Inl e
      | Inr loss \<Rightarrow>
          (case regularization mode inputs outputs of
             Inl e \<Rightarrow> Inl e
           | Inr None \<Rightarrow> Inr loss
           | Inr (Some t) \<Rightarrow> Inr (sadd loss t)))"

section \<open>The evaluator\<close>

text \<open>
  \<^verbatim>\<open>torch.max(outputs.data, 1)\<close> returns, for every row, the index of its first
  maximal value; it raises on a row without classes.
\<close>

definition argmax :: "real list \<Rightarrow> nat" where
  "argmax r = length (takeWhile (\<lambda>x. x < Max (set r)) r)"

definition torch_max1 :: "logits \<Rightarrow> py_error + nat list" where
  "torch_max1 outputs = (if list_ex (\<lambda>r. r = []) outputs then Inl IndexError else Inr (map argmax outputs))"

text \<open>
  \<^verbatim>\<open>(predicted == labels).sum().item()\<close>: an elementwise comparison of two
  one-dimensional tensors, which broadcasts a tensor of one element and raises on any other
  difference of lengths.
\<close>

definition count_equal :: "nat list \<Rightarrow> nat list \<Rightarrow> py_error + nat" where
  "count_equal predicted labels =
     (if length predicted = length labels
        then Inr (length (filter (\<lambda>(p, l). p = l) (zip predicted labels)))
      else if length labels = 1 then Inr (length (filter (\<lambda>p. p = hd labels) predicted))
      else if length predicted = 1 then Inr (length (filter (\<lambda>l. hd predicted = l) labels))
      else Inl RuntimeError)"

text \<open>
  A data loader, as far as the program looks at it: the batches its iteration yields (a batch
  of inputs and the batch of their labels) and the length of its sampler.
\<close>

record 'c loader =
  batches :: "('c list list \<times> nat list) list"
  sampler_len :: nat

text \<open>
  \<^verbatim>\<open>x /= n\<close> for the loss accumulator \<open>x\<close>, which the program initialises to the
  Python integer \<open>0\<close> and which is a tensor as soon as one batch loss was added to it:
  the integer raises on \<open>n = 0\<close>, the tensor does not.
\<close>

definition normalize :: "bool \<Rightarrow> scalar \<Rightarrow> nat \<Rightarrow> py_error + scalar" where
  "normalize still_int x n =
     (if still_int then (if n = 0 then Inl ZeroDivisionError else Inr (Some 0))
      else Inr (sdiv x n))"

text \<open>What the program prints, and the effects of a run in the order they happen.\<close>

datatype printed =
    Training "int option" nat
  | Dashes
  | EpochAccuracy nat real
  | TestAccuracy real

datatype 'p event =
    InitProcessGroup
  | TorchLoad string "(string \<times> string) list"
  | LoadStateDict 'p
  | ModelEval
  | ModelTrain
  | AddScalar string scalar nat
  | TorchSave 'p string
  | Print printed
  | OptimizerStep
  | WriterClose

text \<open>Lines 34 to 41 of \<^verbatim>\<open>evaluate\<close>: the loop over the batches of the loader.\<close>

fun eval_loop ::
  "('c list list \<Rightarrow> logits) \<Rightarrow> (logits \<Rightarrow> nat list \<Rightarrow> py_error + scalar)
     \<Rightarrow> ('c list list \<times> nat list) list \<Rightarrow> nat \<times> nat \<times> scalar \<Rightarrow> py_error + nat \<times> nat \<times> scalar" where
  "eval_loop model criterion [] acc = Inr acc"
| "eval_loop model criterion ((images, labels) # rest) (correct, total_n, avg_loss_test) =
     (case torch_max1 (model images) of
        Inl e \<Rightarrow> Inl e
      | Inr predicted \<Rightarrow>
          (case criterion (model images) labels of
             Inl e \<Rightarrow> Inl e
           | Inr loss \<Rightarrow>
               (case count_equal predicted labels of
                  Inl e \<Rightarrow> Inl e
                | Inr c \<Rightarrow>
                    eval_loop model criterion rest
                      (correct + c, total_n + length labels, sadd avg_loss_test loss))))"

text \<open>
  Lines 30 to 44: the values of \<^verbatim>\<open>avg_loss_test\<close> and \<^verbatim>\<open>accuracy\<close> after line 44.
  \<^verbatim>\<open>correct / total\<close> (\<open>total_n\<close> here) divides two Python integers.
\<close>

definition evaluate_locals ::
  "('c list list \<Rightarrow> logits) \<Rightarrow> 'c loader \<Rightarrow> (logits \<Rightarrow> nat list \<Rightarrow> py_error + scalar)
     \<Rightarrow> py_error + scalar \<times> real" where
  "evaluate_locals model test_loader criterion =
     (case eval_loop model criterion (batches test_loader) (0, 0, Some 0) of
        Inl e \<Rightarrow> Inl e
      | Inr (correct, total_n, loss_sum) \<Rightarrow>
          (case normalize (batches test_loader = []) loss_sum (sampler_len test_loader) of
             Inl e \<Rightarrow> Inl e
           | Inr avg_loss_test \<Rightarrow>
               if total_n = 0 then Inl ZeroDivisionError
               else Inr (avg_loss_test, real correct / real total_n)))"

text \<open>
  \<^verbatim>\<open>evaluate(model, device, test_loader, epoch, criterion, writer)\<close>. Moving a batch to
  the device does not change its values. \<open>writer\<close> says whether a metric sink was passed.
  The function returns the accuracy alone.
\<close>

definition evaluate ::
  "('c list list \<Rightarrow> logits) \<Rightarrow> 'c loader \<Rightarrow> nat \<Rightarrow> (logits \<Rightarrow> nat list \<Rightarrow> py_error + scalar) \<Rightarrow> bool
     \<Rightarrow> 'p event list \<times> (py_error + real)" where
  "evaluate model test_loader epoch criterion writer =
     (case evaluate_locals model test_loader criterion of
        Inl e \<Rightarrow> ([ModelEval], Inl e)
      | Inr (avg_loss_test, accuracy) \<Rightarrow>
          ([ModelEval] @
           (if writer
            then [AddScalar ''Loss/test'' avg_loss_test epoch,
                  AddScalar ''Accuracy/test'' (Some accuracy) epoch]
            else []),
           Inr accuracy))"

text \<open>
  The evaluator as the specification words it: it returns the pair of the average loss and
  the accuracy, and the average loss is the summed loss over the number of batches.
\<close>

definition evaluate_spec ::
  "('c list list \<Rightarrow> logits) \<Rightarrow> 'c loader \<Rightarrow> (logits \<Rightarrow> nat list \<Rightarrow> py_error + scalar)
     \<Rightarrow> py_error + scalar \<times> real" where
  "evaluate_spec model test_loader criterion =
     (case eval_loop model criterion (batches test_loader) (0, 0, Some 0) of
        Inl e \<Rightarrow> Inl e
      | Inr (correct, total_n, loss_sum) \<Rightarrow>
          if total_n = 0 then Inl ZeroDivisionError
          else Inr (sdiv loss_sum (length (batches test_loader)), real correct / real total_n))"

section \<open>The command line and the checkpoint path\<close>

record argv =
  local_rank :: "int option"
  num_epochs :: int
  batch_size :: int
  learning_rate :: real
  random_seed :: int
  model_dir :: string
  model_filename :: string
  resume :: bool
  score :: string
  eval :: bool

text \<open>
  \<^verbatim>\<open>s.rsplit(sep)\<close> without a maximal number of splits: the pieces of \<open>s\<close> between
  every two occurrences of the separator, so never the empty list.
\<close>

fun rsplit :: "char \<Rightarrow> string \<Rightarrow> string list" where
  "rsplit sep [] = [[]]"
| "rsplit sep (x # xs) =
     (if x = sep then [] # rsplit sep xs
      else (case rsplit sep xs of [] \<Rightarrow> [[x]] | y # ys \<Rightarrow> (x # y) # ys))"

text \<open>\<^verbatim>\<open>os.path.join(a, b)\<close> of \<^verbatim>\<open>posixpath\<close>.\<close>

definition os_path_join :: "string \<Rightarrow> string \<Rightarrow> string" where
  "os_path_join a b =
     (if take 1 b = ''/'' then b
      else if a = [] \<or> last a = CHR ''/'' then a @ b
      else a @ ''/'' @ b)"

text \<open>Lines 81 to 85: the file name after the branch on \<^verbatim>\<open>argv.score\<close>.\<close>

definition checkpoint_filename :: "argv \<Rightarrow> string" where
  "checkpoint_filename a =
     (if score a = ''OE'' then hd (rsplit CHR ''.'' (model_filename a)) @ ''_OE.pth''
      else if score a = ''energy'' then hd (rsplit CHR ''.'' (model_filename a)) @ ''_energy.pth''
      else model_filename a)"

text \<open>Line 96.\<close>

definition model_filepath :: "argv \<Rightarrow> string" where
  "model_filepath a = os_path_join (model_dir a) (checkpoint_filename a)"

text \<open>
  The file name as the specification words it: the suffix goes before the extension, which
  starts at the last dot of the configured name.
\<close>

definition suffixed_before_extension :: "string \<Rightarrow> string \<Rightarrow> string" where
  "suffixed_before_extension f suffix =
     (if CHR ''.'' \<in> set f
      then rev (tl (dropWhile (\<lambda>c. c \<noteq> CHR ''.'') (rev f))) @ suffix @ ''.''
             @ rev (takeWhile (\<lambda>c. c \<noteq> CHR ''.'') (rev f))
      else f @ suffix)"

definition checkpoint_path_spec :: "argv \<Rightarrow> string" where
  "checkpoint_path_spec a =
     os_path_join (model_dir a)
       (if score a = ''energy'' then suffixed_before_extension (model_filename a) ''_energy''
        else if score a = ''OE'' then suffixed_before_extension (model_filename a) ''_OE''
        else model_filename a)"

section \<open>Random number generators\<close>

text \<open>
  The state of a generator: the one the library gave it when the process started, or the one
  a seed determines.
\<close>

datatype gen = Unseeded nat | Seeded int

record rng =
  torch_gen :: gen
  numpy_gen :: gen
  python_gen :: gen
  cudnn_deterministic :: bool
  cudnn_benchmark :: bool

text \<open>
  Lines 18 to 24. \<^verbatim>\<open>torch.manual_seed\<close> raises outside the 64-bit range and
  \<^verbatim>\<open>np.random.seed\<close> outside \<open>0 .. 2^32 - 1\<close>.
\<close>

definition set_random_seeds :: "int \<Rightarrow> rng \<Rightarrow> py_error + rng" where
  "set_random_seeds seed r =
     (if seed < - (2 ^ 63) \<or> 2 ^ 64 - 1 < seed then Inl RuntimeError
      else if seed < 0 \<or> 2 ^ 32 - 1 < seed then Inl ValueError
      else Inr \<lparr>torch_gen = Seeded seed, numpy_gen = Seeded seed, python_gen = Seeded seed,
                cudnn_deterministic = True, cudnn_benchmark = False\<rparr>)"

section \<open>The libraries and the machine\<close>

text \<open>
  What the program takes from torch, torchvision and the machine it runs on. \<open>'c\<close> is the
  type of the entries of an input along its first dimension, \<open>'m\<close> the state of the wrapped
  model together with its optimizer, \<open>'p\<close> a state dictionary.
\<close>

record ('c, 'm, 'p) world =
  process_group_ok :: bool
  device_count :: int
  resnet50 :: "gen \<Rightarrow> 'm \<times> gen"
  set_fc :: "'m \<Rightarrow> gen \<Rightarrow> 'm \<times> gen"
  files :: "string \<Rightarrow> 'p option"
  writable :: "string \<Rightarrow> bool"
  load_state_dict :: "'m \<Rightarrow> 'p \<Rightarrow> 'm option"
  state_dict :: "'m \<Rightarrow> 'p"
  forward :: "bool \<Rightarrow> 'm \<Rightarrow> 'c list list \<Rightarrow> logits"
  backward_step :: "'m \<Rightarrow> 'c list list \<Rightarrow> nat list \<Rightarrow> 'm"
  dataset_found :: bool
  train_indices :: "nat list"
  train_item :: "nat \<Rightarrow> nat \<Rightarrow> 'c list \<times> nat"
  test_items :: "('c list \<times> nat) list"

text \<open>
  \<open>process_group_ok\<close>: \<^verbatim>\<open>init_process_group\<close> finds its environment.
  \<open>resnet50\<close> and \<open>set_fc\<close>: lines 106 and 107, which draw the initial parameters from
  torch's generator. \<open>files\<close>: what \<^verbatim>\<open>torch.load\<close> finds at a path.
  \<open>writable\<close>: \<^verbatim>\<open>torch.save\<close> can write at a path; it raises when the directory of
  the path does not exist, and the program does not create the model directory.
  \<open>load_state_dict\<close>: \<open>None\<close> when the keys or shapes do not fit the model.
  \<open>forward\<close>: the logits of a batch, in training mode (\<open>True\<close>) or evaluation mode.
  \<open>backward_step\<close>: \<^verbatim>\<open>loss.backward()\<close> with the averaging of the gradients, then
  \<^verbatim>\<open>optimizer.step()\<close>. \<open>train_indices\<close>: the indices the distributed sampler gives
  this worker, the same in every epoch since the program never calls \<^verbatim>\<open>set_epoch\<close>.
  \<open>train_item\<close>: the example of an index after the random training transforms of an
  epoch. \<open>test_items\<close>: the test set after its transforms, in order.
\<close>

subsection \<open>Data loaders\<close>

function chunks :: "nat \<Rightarrow> 'a list \<Rightarrow> 'a list list" where
  "chunks n xs = (if n = 0 \<or> xs = [] then [] else take n xs # chunks n (drop n xs))"
  by pat_completeness auto
termination
  by (relation "measure (\<lambda>(n, xs). length xs)") auto

declare chunks.simps [simp del]

text \<open>
  A loader over the examples in the order of its sampler, without \<^verbatim>\<open>drop_last\<close>: the
  batches are the consecutive groups of \<open>n\<close> examples, and the sampler has one index per
  example.
\<close>

definition make_loader :: "('c list \<times> nat) list \<Rightarrow> nat \<Rightarrow> 'c loader" where
  "make_loader items n =
     \<lparr>batches = map (\<lambda>c. (map fst c, map snd c)) (chunks n items), sampler_len = length items\<rparr>"

definition DataLoader :: "('c list \<times> nat) list \<Rightarrow> int \<Rightarrow> py_error + 'c loader" where
  "DataLoader items n = (if n \<le> 0 then Inl ValueError else Inr (make_loader items (nat n)))"

definition train_loader :: "('c, 'm, 'p) world \<Rightarrow> argv \<Rightarrow> nat \<Rightarrow> 'c loader" where
  \<comment> \<open>what iterating the training loader yields in an epoch\<close>
  "train_loader w a epoch =
     make_loader (map (train_item w epoch) (train_indices w)) (nat (batch_size a))"

section \<open>The program\<close>

text \<open>\<^verbatim>\<open>"cuda:{}".format(local_rank)\<close>: the decimal digits of an integer, or \<^verbatim>\<open>None\<close>.\<close>

fun digits :: "nat \<Rightarrow> string" where
  "digits n = (if n < 10 then [''0123456789'' ! n] else digits (n div 10) @ [''0123456789'' ! (n mod 10)])"

declare digits.simps [simp del]

definition str_int :: "int \<Rightarrow> string" where
  "str_int i = (if i < 0 then CHR ''-'' # digits (nat (- i)) else digits (nat i))"

definition cuda_device :: "int option \<Rightarrow> string" where
  "cuda_device r = ''cuda:'' @ (case r of None \<Rightarrow> ''None'' | Some i \<Rightarrow> str_int i)"

text \<open>
  Lines 99 to 111: the seeds, the process group, the model and its device. The device string
  names a device of the machine only for a local rank from \<open>0\<close> up to the number of devices.
\<close>

definition construct_model ::
  "('c, 'm, 'p) world \<Rightarrow> argv \<Rightarrow> rng \<Rightarrow> 'p event list \<times> (py_error + 'm)" where
  "construct_model w a r =
     (case set_random_seeds (random_seed a) r of
        Inl e \<Rightarrow> ([], Inl e)
      | Inr r1 \<Rightarrow>
          if \<not> process_group_ok w then ([], Inl RuntimeError)
          else
            (case resnet50 w (torch_gen r1) of
               (m0, g1) \<Rightarrow>
                 (case set_fc w m0 g1 of
                    (m1, g2) \<Rightarrow>
                      (case local_rank a of
                         None \<Rightarrow> ([InitProcessGroup], Inl RuntimeError)
                       | Some i \<Rightarrow>
                           if 0 \<le> i \<and> i < device_count w then ([InitProcessGroup], Inr m1)
                           else ([InitProcessGroup], Inl RuntimeError)))))"

text \<open>Lines 115 to 117.\<close>

definition resume_model ::
  "('c, 'm, 'p) world \<Rightarrow> argv \<Rightarrow> 'm \<Rightarrow> 'p event list \<times> (py_error + 'm)" where
  "resume_model w a m =
     (if resume a then
        (let map_location = [(''cuda:0'', cuda_device (local_rank a))]
         in case files w (model_filepath a) of
              None \<Rightarrow> ([], Inl FileNotFoundError)
            | Some sd \<Rightarrow>
                (case load_state_dict w m sd of
                   None \<Rightarrow> ([TorchLoad (model_filepath a) map_location], Inl RuntimeError)
                 | Some m' \<Rightarrow>
                     ([TorchLoad (model_filepath a) map_location, LoadStateDict sd], Inr m')))
      else ([], Inr m))"

text \<open>Lines 174 to 191: the loop over the batches of the training loader.\<close>

fun train_batches ::
  "('c, 'm, 'p) world \<Rightarrow> string \<Rightarrow> ('c list list \<times> nat list) list \<Rightarrow> 'm \<times> scalar
     \<Rightarrow> 'p event list \<times> (py_error + 'm \<times> scalar)" where
  "train_batches w mode [] (m, avg_loss_train) = ([], Inr (m, avg_loss_train))"
| "train_batches w mode ((inputs, labels) # rest) (m, avg_loss_train) =
     (case batch_loss CrossEntropyLoss mode inputs labels (forward w True m inputs) of
        Inl e \<Rightarrow> ([], Inl e)
      | Inr loss \<Rightarrow>
          (case train_batches w mode rest
                  (backward_step w m inputs labels, sadd avg_loss_train loss) of
             (es, r) \<Rightarrow> (OptimizerStep # es, r)))"

text \<open>Lines 164 to 170: the routine evaluation and checkpoint.\<close>

definition periodic ::
  "('c, 'm, 'p) world \<Rightarrow> argv \<Rightarrow> 'c loader \<Rightarrow> nat \<Rightarrow> 'm \<Rightarrow> 'p event list \<times> (py_error + unit)" where
  "periodic w a test_loader epoch m =
     (if epoch mod 10 = 0 then
        (if local_rank a = Some 0 then
           (case evaluate (forward w False m) test_loader epoch CrossEntropyLoss True of
              (es, Inl e) \<Rightarrow> (es, Inl e)
            | (es, Inr accuracy) \<Rightarrow>
                if writable w (model_filepath a)
                then (es @ [TorchSave (state_dict w m) (model_filepath a),
                            Print Dashes, Print (EpochAccuracy epoch accuracy), Print Dashes],
                      Inr ())
                else (es, Inl RuntimeError))
         else ([], Inr ()))
      else ([], Inr ()))"

text \<open>Lines 160 to 193: one pass of the loop over the epochs.\<close>

definition train_epoch ::
  "('c, 'm, 'p) world \<Rightarrow> argv \<Rightarrow> 'c loader \<Rightarrow> nat \<Rightarrow> 'm \<Rightarrow> 'p event list \<times> (py_error + 'm)" where
  "train_epoch w a test_loader epoch m =
     (case periodic w a test_loader epoch m of
        (es, Inl e) \<Rightarrow> (Print (Training (local_rank a) epoch) # es, Inl e)
      | (es, Inr u) \<Rightarrow>
          (case train_batches w (score a) (batches (train_loader w a epoch)) (m, Some 0) of
             (es', Inl e) \<Rightarrow> (Print (Training (local_rank a) epoch) # es @ ModelTrain # es', Inl e)
           | (es', Inr (m', loss_sum)) \<Rightarrow>
               (case normalize (batches (train_loader w a epoch) = []) loss_sum
                       (sampler_len (train_loader w a epoch)) of
                  Inl e \<Rightarrow>
                    (Print (Training (local_rank a) epoch) # es @ ModelTrain # es', Inl e)
                | Inr avg_loss_train \<Rightarrow>
                    (Print (Training (local_rank a) epoch) # es @ ModelTrain # es'
                       @ [AddScalar ''Loss/train'' avg_loss_train epoch],
                     Inr m'))))"

text \<open>
  Lines 158 to 193: the loop over \<^verbatim>\<open>range(num_epochs)\<close>. The effects are kept epoch by
  epoch: the result holds the effects of every epoch the loop entered, in order.
\<close>

fun run_epochs ::
  "('c, 'm, 'p) world \<Rightarrow> argv \<Rightarrow> 'c loader \<Rightarrow> nat list \<Rightarrow> 'm
     \<Rightarrow> 'p event list list \<times> (py_error + 'm)" where
  "run_epochs w a test_loader [] m = ([], Inr m)"
| "run_epochs w a test_loader (epoch # later) m =
     (case train_epoch w a test_loader epoch m of
        (es, Inl e) \<Rightarrow> ([es], Inl e)
      | (es, Inr m') \<Rightarrow>
          (case run_epochs w a test_loader later m' of
             (ess, r) \<Rightarrow> (es # ess, r)))"

text \<open>
  Lines 137 to 148: the datasets, the loaders and the optimizer, which raise when the dataset
  is not on disk, when the batch size is not positive and when the learning rate is negative.
  The result is the test loader.
\<close>

definition prepare_data :: "('c, 'm, 'p) world \<Rightarrow> argv \<Rightarrow> py_error + 'c loader" where
  "prepare_data w a =
     (if \<not> dataset_found w then Inl RuntimeError
      else
        (case DataLoader (map (train_item w 0) (train_indices w)) (batch_size a) of
           Inl e \<Rightarrow> Inl e
         | Inr l \<Rightarrow>
             (case DataLoader (test_items w) 128 of
                Inl e \<Rightarrow> Inl e
              | Inr test_loader \<Rightarrow>
                  if learning_rate a < 0 then Inl ValueError else Inr test_loader)))"

text \<open>Lines 152 to 194: the evaluation-only branch, or the training loop.\<close>

definition eval_or_train ::
  "('c, 'm, 'p) world \<Rightarrow> argv \<Rightarrow> 'c loader \<Rightarrow> 'm \<Rightarrow> 'p event list \<times> (py_error + unit)" where
  "eval_or_train w a test_loader m =
     (if eval a then
        (case evaluate (forward w False m) test_loader 0 CrossEntropyLoss False of
           (es, Inl e) \<Rightarrow> (es, Inl e)
         | (es, Inr accuracy) \<Rightarrow> (es @ [Print (TestAccuracy accuracy)], Inl (SystemExit 0)))
      else
        (case run_epochs w a test_loader [0..<nat (num_epochs a)] m of
           (ess, Inl e) \<Rightarrow> (concat ess, Inl e)
         | (ess, Inr m') \<Rightarrow> (concat ess @ [WriterClose], Inr ())))"

text \<open>\<^verbatim>\<open>main()\<close>: the effects of the run in order, and how it ends.\<close>

definition main :: "('c, 'm, 'p) world \<Rightarrow> argv \<Rightarrow> rng \<Rightarrow> 'p event list \<times> (py_error + unit)" where
  "main w a r =
     (case construct_model w a r of
        (es0, Inl e) \<Rightarrow> (es0, Inl e)
      | (es0, Inr m0) \<Rightarrow>
          (case resume_model w a m0 of
             (es1, Inl e) \<Rightarrow> (es0 @ es1, Inl e)
           | (es1, Inr m) \<Rightarrow>
               (case prepare_data w a of
                  Inl e \<Rightarrow> (es0 @ es1, Inl e)
                | Inr test_loader \<Rightarrow>
                    (case eval_or_train w a test_loader m of
                       (es2, r) \<Rightarrow> (es0 @ es1 @ es2, r)))))"

text \<open>The exit status of the process: an uncaught exception other than \<^verbatim>\<open>SystemExit\<close> gives 1.\<close>

definition exit_status :: "py_error + unit \<Rightarrow> int" where
  "exit_status r = (case r of Inr u \<Rightarrow> 0 | Inl (SystemExit c) \<Rightarrow> c | Inl e \<Rightarrow> 1)"

section \<open>Reading the effects of a run\<close>

text \<open>The checkpoint writes among the effects.\<close>

fun is_save :: "'p event \<Rightarrow> bool" where
  "is_save (TorchSave sd path) = True"
| "is_save x = False"

text \<open>
  The effects of the set-up and of the load of a checkpoint: every other effect belongs to
  an evaluation or to the training.
\<close>

fun is_setup :: "'p event \<Rightarrow> bool" where
  "is_setup InitProcessGroup = True"
| "is_setup (TorchLoad path map_location) = True"
| "is_setup (LoadStateDict sd) = True"
| "is_setup x = False"

text \<open>
  The losses of the batches of one epoch, in the order in which line 189 adds them to
  \<^verbatim>\<open>avg_loss_train\<close>; the model changes with every optimizer step.
\<close>

fun batch_losses ::
  "('c, 'm, 'p) world \<Rightarrow> string \<Rightarrow> ('c list list \<times> nat list) list \<Rightarrow> 'm \<Rightarrow> scalar list" where
  "batch_losses w mode [] m = []"
| "batch_losses w mode ((inputs, labels) # rest) m =
     (case batch_loss CrossEntropyLoss mode inputs labels (forward w True m inputs) of
        Inl e \<Rightarrow> []
      | Inr loss \<Rightarrow> loss # batch_losses w mode rest (backward_step w m inputs labels))"

section \<open>Concrete inputs\<close>

text \<open>The command line when only the defaults of lines 54 to 72 apply.\<close>

definition default_argv :: argv where
  "default_argv =
     \<lparr>local_rank = None, num_epochs = 250, batch_size = 64, learning_rate = 0.1,
      random_seed = 0, model_dir = ''saved_models'', model_filename = ''resnet_distributed.pth'',
      resume = False, score = ''None'', eval = False\<rparr>"

text \<open>
  A small machine to run the program on: two devices, every path writable, a model whose
  state is a number (the seed it was built from, plus one per optimizer step), two classes
  with both logits \<open>0\<close> for every example, two training examples and two test examples.
\<close>

definition small_world :: "(string \<Rightarrow> nat option) \<Rightarrow> (unit, nat, nat) world" where
  "small_world fs =
     \<lparr>process_group_ok = True, device_count = 2,
      resnet50 = (\<lambda>g. (case g of Seeded s \<Rightarrow> nat s | Unseeded n \<Rightarrow> Suc n, g)),
      set_fc = (\<lambda>m g. (m, g)),
      files = fs,
      writable = (\<lambda>path. True),
      load_state_dict = (\<lambda>m sd. Some sd),
      state_dict = (\<lambda>m. m),
      forward = (\<lambda>training m inputs. map (\<lambda>x. [0, 0]) inputs),
      backward_step = (\<lambda>m inputs labels. Suc m),
      dataset_found = True,
      train_indices = [0, 1],
      train_item = (\<lambda>epoch i. ([()], i)),
      test_items = [([()], 0), ([()], 1)]\<rparr>"

definition unseeded :: rng where
  "unseeded = \<lparr>torch_gen = Unseeded 0, numpy_gen = Unseeded 1, python_gen = Unseeded 2,
                cudnn_deterministic = False, cudnn_benchmark = True\<rparr>"

section \<open>Properties of the loss\<close>

lemma energy_term_eq:
  "energy_term (x # xs) outputs =
     Inr (if take (length x) outputs = [] \<or> drop (length x) outputs = [] then None
          else Some (0.1 *
            ((\<Sum>r\<leftarrow>take (length x) outputs. (max 0 (energy r + 25))\<^sup>2)
               / real (length (take (length x) outputs))
             + (\<Sum>r\<leftarrow>drop (length x) outputs. (max 0 (- 7 - energy r))\<^sup>2)
               / real (length (drop (length x) outputs)))))"
  by (simp add: energy_term_def split_point_def neg_def logsumexp_def mean_def pow_def relu_def
      sub_const_def const_sub_def smul_def sadd_def energy_def o_def Let_def)

lemma sum_list_map_zero: "(\<And>r. r \<in> set l \<Longrightarrow> f r = (0::real)) \<Longrightarrow> sum_list (map f l) = 0"
  by (induction l) auto

lemma energy_term_zero:
  assumes "take (length x) outputs \<noteq> []" "drop (length x) outputs \<noteq> []"
    "\<forall>r\<in>set (take (length x) outputs). energy r \<le> - 25"
    "\<forall>r\<in>set (drop (length x) outputs). - 7 \<le> energy r"
  shows "energy_term (x # xs) outputs = Inr (Some 0)"
proof -
  have a: "(\<Sum>r\<leftarrow>take (length x) outputs. (max 0 (energy r + 25))\<^sup>2) = 0"
    using assms(3) by (intro sum_list_map_zero) (fastforce simp: max_def)
  have b: "(\<Sum>r\<leftarrow>drop (length x) outputs. (max 0 (- 7 - energy r))\<^sup>2) = 0"
    using assms(4) by (intro sum_list_map_zero) (fastforce simp: max_def)
  show ?thesis
    unfolding energy_term_eq using assms(1,2) by (simp only: a b) simp
qed

lemma oe_term_eq:
  "oe_term (x # xs) outputs =
     Inr (if drop (length x) outputs = [] then None
          else Some (0.5 *
            - ((\<Sum>r\<leftarrow>drop (length x) outputs. sum_list r / real (length r) - ln (sum_list (map exp r)))
                 / real (length (drop (length x) outputs)))))"
  by (simp add: oe_term_def split_point_def logsumexp_def mean1_def mean_def sub_def smul_def
      sneg_def zip_map_map zip_same_conv_map o_def)

text \<open>
  Claim C1, as the code has it. In the mode \<^verbatim>\<open>energy\<close>, with \<open>k\<close> the length of the
  first input of the batch, \<open>E = -logsumexp\<close> of a row of logits, \<open>E_in\<close> over the first \<open>k\<close>
  rows and \<open>E_out\<close> over the rows after them, the loss of a batch is the loss of the criterion
  plus \<open>0.1 * (mean(relu(E_in + 25)^2) + mean(relu(-7 - E_out)^2))\<close>: the mean of the squares,
  not the square of the mean, and not a number when one of the two parts is empty. When both
  parts are non-empty, every \<open>E_in\<close> is at most \<open>-25\<close> and every \<open>E_out\<close> at least \<open>-7\<close>,
  the term is \<open>0\<close>.
\<close>

theorem energy_term_added_to_loss:
  "(criterion outputs labels = Inr loss \<longrightarrow>
      batch_loss criterion ''energy'' (x # xs) labels outputs =
        Inr (sadd loss
          (if take (length x) outputs = [] \<or> drop (length x) outputs = [] then None
           else Some (0.1 *
             ((\<Sum>r\<leftarrow>take (length x) outputs. (max 0 (energy r + 25))\<^sup>2)
                / real (length (take (length x) outputs))
              + (\<Sum>r\<leftarrow>drop (length x) outputs. (max 0 (- 7 - energy r))\<^sup>2)
                / real (length (drop (length x) outputs)))))))
   \<and> (take (length x) outputs \<noteq> [] \<longrightarrow> drop (length x) outputs \<noteq> [] \<longrightarrow>
      (\<forall>r\<in>set (take (length x) outputs). energy r \<le> - 25) \<longrightarrow>
      (\<forall>r\<in>set (drop (length x) outputs). - 7 \<le> energy r) \<longrightarrow>
      energy_term (x # xs) outputs = Inr (Some 0))"
  using energy_term_zero[of x outputs xs]
  by (simp add: batch_loss_def regularization_def energy_term_eq)

text \<open>
  A batch of four inputs of length two with one class: the energies are \<open>-30, -26\<close> in the
  first part and \<open>-7, -5\<close> in the second, and the term is \<open>0\<close>.
\<close>

theorem energy_term_added_to_loss_witness:
  "CrossEntropyLoss [[30], [26], [7], [5]] [0, 0, 0, 0] = Inr (Some 0)
   \<and> batch_loss CrossEntropyLoss ''energy'' [[(), ()], [(), ()], [(), ()], [(), ()]] [0, 0, 0, 0]
        [[30], [26], [7], [5]] = Inr (Some 0)
   \<and> energy_term [[(), ()], [(), ()], [(), ()], [(), ()]] [[30], [26], [7], [5]] = Inr (Some 0)"
proof -
  have c: "CrossEntropyLoss [[30], [26], [7], [5]] [0, 0, 0, 0] = Inr (Some 0)"
    by (simp add: CrossEntropyLoss_def mean_def)
  show ?thesis
    using energy_term_added_to_loss[of CrossEntropyLoss "[[30], [26], [7], [5]]" "[0, 0, 0, 0]"
        "Some 0" "[(), ()]" "[[(), ()], [(), ()], [(), ()]]"] c
    by (simp add: energy_def sadd_def)
qed

text \<open>
  Claim C1 as the specification states it fails: with the energies \<open>-25, -23\<close> in the first
  part and \<open>-7\<close> in the second, the code adds \<open>0.1 * (0 + 4) / 2 = 0.2\<close>, and the stated
  formula gives \<open>0.1 * ((0 + 2) / 2)^2 = 0.1\<close>.
\<close>

theorem energy_term_is_not_squared_mean:
  "energy_term [[(), ()], [(), ()], [(), ()]] [[25], [23], [7]] \<noteq>
     Inr (energy_term_spec 2 [[25], [23], [7]])"
  by (simp add: energy_term_def split_point_def neg_def logsumexp_def mean_def pow_def relu_def
      sub_const_def const_sub_def smul_def sadd_def energy_term_spec_def energy_def)

text \<open>
  Claim C5. In the mode \<^verbatim>\<open>OE\<close>, the loss of a batch is the loss of the criterion plus
  \<open>0.5 * -mean(mean_logit(aux) - logsumexp(aux))\<close>, where \<open>aux\<close> are the rows of logits after
  the first \<open>k\<close> (\<open>k\<close> the length of the first input of the batch), \<open>mean_logit\<close> averages
  the logits of a row over its classes, and the mean of no rows is not a number.
\<close>

theorem oe_term_added_to_loss:
  "criterion outputs labels = Inr loss \<Longrightarrow>
     batch_loss criterion ''OE'' (x # xs) labels outputs =
       Inr (sadd loss
         (if drop (length x) outputs = [] then None
          else Some (0.5 *
            - ((\<Sum>r\<leftarrow>drop (length x) outputs. sum_list r / real (length r) - ln (sum_list (map exp r)))
                 / real (length (drop (length x) outputs))))))"
  by (simp add: batch_loss_def regularization_def oe_term_eq)

text \<open>
  Three examples with two classes and all logits \<open>0\<close>, the first input of length one: the
  criterion gives \<open>ln 2\<close> and the two auxiliary rows add \<open>0.5 * ln 2\<close>.
\<close>

theorem oe_term_added_to_loss_witness:
  "CrossEntropyLoss [[0, 0], [0, 0], [0, 0]] [0, 0, 1] = Inr (Some (ln 2))
   \<and> batch_loss CrossEntropyLoss ''OE'' [[()], [()], [()]] [0, 0, 1] [[0, 0], [0, 0], [0, 0]]
       = Inr (Some (ln 2 + ln 2 / 2))"
proof -
  have c: "CrossEntropyLoss [[0, 0], [0, 0], [0, 0]] [0, 0, 1] = Inr (Some (ln 2))"
    by (simp add: CrossEntropyLoss_def mean_def)
  show ?thesis
    using oe_term_added_to_loss[of CrossEntropyLoss "[[0, 0], [0, 0], [0, 0]]" "[0, 0, 1]"
        "Some (ln 2)" "[()]" "[[()], [()]]"] c
    by (simp add: sadd_def)
qed

section \<open>Properties of the evaluator\<close>

lemma argmax_first_maximum:
  assumes "r \<noteq> []"
  shows "argmax r < length r \<and> r ! argmax r = Max (set r) \<and> (\<forall>j<argmax r. r ! j < Max (set r))"
proof -
  let ?P = "\<lambda>x. x < Max (set r)"
  have "Max (set r) \<in> set r" using assms by simp
  then have "\<not> (\<forall>x\<in>set r. ?P x)" by blast
  then have "dropWhile ?P r \<noteq> []" by (simp only: dropWhile_eq_Nil_conv not_False_eq_True)
  moreover have "length (takeWhile ?P r) + length (dropWhile ?P r) = length r"
    by (simp only: length_append[symmetric] takeWhile_dropWhile_id)
  ultimately have less: "argmax r < length r"
    unfolding argmax_def by (cases "dropWhile ?P r") simp_all
  then have "\<not> r ! argmax r < Max (set r)"
    unfolding argmax_def by (rule nth_length_takeWhile)
  moreover have "r ! argmax r \<le> Max (set r)" using less by simp
  ultimately have eq: "r ! argmax r = Max (set r)" by simp
  have "r ! j < Max (set r)" if "j < argmax r" for j
  proof -
    from that have j: "j < length (takeWhile ?P r)" by (simp add: argmax_def)
    then have "takeWhile ?P r ! j \<in> set (takeWhile ?P r)" by (rule nth_mem)
    then have "?P (takeWhile ?P r ! j)" by (rule set_takeWhileD[THEN conjunct2])
    with j show ?thesis by (simp only: takeWhile_nth)
  qed
  with less eq show ?thesis by blast
qed

lemma count_equal_argmax:
  "length outs = length labels \<Longrightarrow>
   count_equal (map argmax outs) labels =
     Inr (length (filter (\<lambda>(r, l). argmax r = l) (zip outs labels)))"
  by (simp add: count_equal_def zip_map1 filter_map o_def case_prod_unfold)

lemma eval_loop_sums:
  "eval_loop model criterion bs (c, t, s) = Inr (c', t', s') \<Longrightarrow>
   \<forall>(images, labels)\<in>set bs. length (model images) = length labels \<Longrightarrow>
     c' = c + (\<Sum>(images, labels)\<leftarrow>bs. length (filter (\<lambda>(r, l). argmax r = l) (zip (model images) labels)))
     \<and> t' = t + (\<Sum>(images, labels)\<leftarrow>bs. length labels)
     \<and> (\<exists>losses. list_all2 (\<lambda>(images, labels) loss. criterion (model images) labels = Inr loss) bs losses
            \<and> s' = foldl sadd s losses)"
proof (induction bs arbitrary: c t s)
  case Nil
  then show ?case by simp
next
  case (Cons b bs)
  obtain images labels where b: "b = (images, labels)" by (cases b)
  from Cons.prems(2) b have len: "length (model images) = length labels" by simp
  from Cons.prems(1) b obtain predicted loss k where
    p: "torch_max1 (model images) = Inr predicted" and
    l: "criterion (model images) labels = Inr loss" and
    k: "count_equal predicted labels = Inr k" and
    rest: "eval_loop model criterion bs (c + k, t + length labels, sadd s loss) = Inr (c', t', s')"
    by (auto split: sum.splits)
  from p have "predicted = map argmax (model images)"
    by (auto simp: torch_max1_def split: if_splits)
  with k len have keq: "k = length (filter (\<lambda>(r, l). argmax r = l) (zip (model images) labels))"
    by (simp add: count_equal_argmax)
  from Cons.prems(2) have "\<forall>(images, labels)\<in>set bs. length (model images) = length labels"
    by simp
  from Cons.IH[OF rest this] obtain losses where
    ih: "c' = c + k + (\<Sum>(images, labels)\<leftarrow>bs. length (filter (\<lambda>(r, l). argmax r = l) (zip (model images) labels)))"
      "t' = t + length labels + (\<Sum>(images, labels)\<leftarrow>bs. length labels)"
      "list_all2 (\<lambda>(images, labels) loss. criterion (model images) labels = Inr loss) bs losses"
      "s' = foldl sadd (sadd s loss) losses"
    by blast
  have "list_all2 (\<lambda>(images, labels) loss. criterion (model images) labels = Inr loss) (b # bs) (loss # losses)"
    using ih(3) l b by simp
  moreover have "s' = foldl sadd s (loss # losses)" using ih(4) by simp
  ultimately show ?case using ih(1,2) keq b by (intro conjI exI[of _ "loss # losses"]) simp_all
qed

lemma chunks_lengths: "0 < n \<Longrightarrow> (\<Sum>c\<leftarrow>chunks n xs. length c) = length xs"
proof (induction n xs rule: chunks.induct)
  case (1 n xs)
  show ?case
  proof (cases "xs = []")
    case True
    then show ?thesis by (simp add: chunks.simps)
  next
    case False
    with 1 show ?thesis
      by (subst chunks.simps) simp
  qed
qed

lemma make_loader_total:
  "0 < n \<Longrightarrow> (\<Sum>(images, labels)\<leftarrow>batches (make_loader items n). length labels) = length items"
  using chunks_lengths[of n items]
  by (simp add: make_loader_def o_def case_prod_unfold)


text \<open>
  Claim C2, as the code has it. \<^verbatim>\<open>evaluate\<close> returns the accuracy alone. When it
  returns, on batches with one row of logits per label, the accuracy is the number of examples
  whose first maximal logit is at the label, over the number of examples. The average loss is
  only written to the metric sink (when one was passed): it is the sum of the losses of the
  batches over the length of the sampler of the loader, and for a loader over a dataset that
  length is the number of examples, not the number of batches.
\<close>

theorem evaluate_accuracy_and_loss:
  assumes ev: "evaluate model test_loader epoch criterion writer = (es, Inr accuracy)"
    and wf: "\<forall>(images, labels)\<in>set (batches test_loader). length (model images) = length labels"
  shows "accuracy =
           real (\<Sum>(images, labels)\<leftarrow>batches test_loader.
                   length (filter (\<lambda>(r, l). argmax r = l) (zip (model images) labels)))
           / real (\<Sum>(images, labels)\<leftarrow>batches test_loader. length labels)
         \<and> (\<exists>losses.
               list_all2 (\<lambda>(images, labels) loss. criterion (model images) labels = Inr loss)
                 (batches test_loader) losses
               \<and> evaluate_locals model test_loader criterion =
                   Inr (sdiv (foldl sadd (Some 0) losses) (sampler_len test_loader), accuracy)
               \<and> es = ModelEval #
                   (if writer
                    then [AddScalar ''Loss/test''
                            (sdiv (foldl sadd (Some 0) losses) (sampler_len test_loader)) epoch,
                          AddScalar ''Accuracy/test'' (Some accuracy) epoch]
                    else []))
         \<and> (\<forall>items n. 0 < n \<longrightarrow> test_loader = make_loader items n \<longrightarrow>
               sampler_len test_loader = length items
               \<and> (\<Sum>(images, labels)\<leftarrow>batches test_loader. length labels) = length items)"
proof -
  from ev obtain avg where loc: "evaluate_locals model test_loader criterion = Inr (avg, accuracy)"
    and es: "es = ModelEval #
               (if writer then [AddScalar ''Loss/test'' avg epoch,
                                AddScalar ''Accuracy/test'' (Some accuracy) epoch] else [])"
    by (auto simp: evaluate_def split: sum.splits prod.splits)
  from loc obtain c t s where
    loop: "eval_loop model criterion (batches test_loader) (0, 0, Some 0) = Inr (c, t, s)"
    and norm: "normalize (batches test_loader = []) s (sampler_len test_loader) = Inr avg"
    and t: "t \<noteq> 0" and acc: "accuracy = real c / real t"
    by (auto simp: evaluate_locals_def split: sum.splits prod.splits if_splits)
  from eval_loop_sums[OF loop wf] obtain losses where
    c: "c = (\<Sum>(images, labels)\<leftarrow>batches test_loader.
                   length (filter (\<lambda>(r, l). argmax r = l) (zip (model images) labels)))"
    and t': "t = (\<Sum>(images, labels)\<leftarrow>batches test_loader. length labels)"
    and ls: "list_all2 (\<lambda>(images, labels) loss. criterion (model images) labels = Inr loss)
                 (batches test_loader) losses"
    and s: "s = foldl sadd (Some 0) losses"
    by auto
  from t t' have "batches test_loader \<noteq> []" by auto
  with norm s have avg: "avg = sdiv (foldl sadd (Some 0) losses) (sampler_len test_loader)"
    by (simp add: normalize_def)
  have "accuracy =
           real (\<Sum>(images, labels)\<leftarrow>batches test_loader.
                   length (filter (\<lambda>(r, l). argmax r = l) (zip (model images) labels)))
           / real (\<Sum>(images, labels)\<leftarrow>batches test_loader. length labels)"
    using acc c t' by simp
  moreover have "\<exists>losses.
               list_all2 (\<lambda>(images, labels) loss. criterion (model images) labels = Inr loss)
                 (batches test_loader) losses
               \<and> evaluate_locals model test_loader criterion =
                   Inr (sdiv (foldl sadd (Some 0) losses) (sampler_len test_loader), accuracy)
               \<and> es = ModelEval #
                   (if writer
                    then [AddScalar ''Loss/test''
                            (sdiv (foldl sadd (Some 0) losses) (sampler_len test_loader)) epoch,
                          AddScalar ''Accuracy/test'' (Some accuracy) epoch]
                    else [])"
    using ls loc es avg by blast
  moreover have "\<forall>items n. 0 < n \<longrightarrow> test_loader = make_loader items n \<longrightarrow>
               sampler_len test_loader = length items
               \<and> (\<Sum>(images, labels)\<leftarrow>batches test_loader. length labels) = length items"
    using make_loader_total by (auto simp: make_loader_def)
  ultimately show ?thesis by blast
qed

text \<open>
  A test set of four examples in two batches of two, a model that answers \<open>[0, 0]\<close> for every
  example and the labels \<open>0, 1, 0, 1\<close>: the accuracy is \<open>2 / 4\<close>, every batch has the loss
  \<open>ln 2\<close>, and the average loss is \<open>2 * ln 2 / 4\<close>.
\<close>

theorem evaluate_accuracy_and_loss_witness:
  "evaluate (\<lambda>images. map (\<lambda>x. [0, 0]) images)
      (make_loader [([()], 0), ([()], 1), ([()], 0), ([()], 1)] 2) 0 CrossEntropyLoss True
     = ([ModelEval, AddScalar ''Loss/test'' (Some (ln 2 / 2)) 0,
         AddScalar ''Accuracy/test'' (Some (1 / 2)) 0 :: unit event], Inr (1 / 2))
   \<and> (1 / 2 :: real) =
       real (\<Sum>(images, labels)\<leftarrow>batches (make_loader [([()], 0), ([()], 1), ([()], 0), ([()], 1)] 2).
               length (filter (\<lambda>(r, l). argmax r = l) (zip (map (\<lambda>x. [0, 0]) images) labels)))
       / real (\<Sum>(images, labels)\<leftarrow>batches (make_loader [([()], 0), ([()], 1), ([()], 0), ([()], 1)] 2).
               length labels)
   \<and> sampler_len (make_loader [([()], 0), ([()], 1), ([()], 0), ([()], 1)] 2) = 4"
proof -
  have l: "make_loader [([()], 0), ([()], 1), ([()], 0), ([()], 1)] 2 =
      \<lparr>batches = [([[()], [()]], [0, 1]), ([[()], [()]], [0, 1])], sampler_len = 4\<rparr>"
    by (simp add: make_loader_def chunks.simps)
  have ce: "CrossEntropyLoss [[0, 0], [0, 0]] [0, Suc 0] = Inr (Some (ln 2))"
    by (simp add: CrossEntropyLoss_def mean_def)
  have ev: "evaluate (\<lambda>images. map (\<lambda>x. [0, 0]) images)
      (make_loader [([()], 0), ([()], 1), ([()], 0), ([()], 1)] 2) 0 CrossEntropyLoss True
     = ([ModelEval, AddScalar ''Loss/test'' (Some (ln 2 / 2)) 0,
         AddScalar ''Accuracy/test'' (Some (1 / 2)) 0 :: unit event], Inr (1 / 2))"
    unfolding l
    by (simp add: evaluate_def evaluate_locals_def torch_max1_def argmax_def count_equal_def
        ce sadd_def normalize_def sdiv_def)
  have wf: "\<forall>(images, labels)\<in>set (batches (make_loader [([()], 0), ([()], 1), ([()], 0), ([()], 1)] 2)).
      length (map (\<lambda>x. [0, 0 :: real]) images) = length labels"
    unfolding l by simp
  show ?thesis
    using evaluate_accuracy_and_loss[OF ev wf] ev unfolding l by simp
qed

text \<open>
  Claim C2 as the specification states it fails on the same input: the code divides the summed
  loss \<open>2 * ln 2\<close> by the four examples of the sampler, the specification by the two batches.
\<close>

theorem evaluate_loss_not_per_batch:
  "evaluate_locals (\<lambda>images. map (\<lambda>x. [0, 0]) images)
      (make_loader [([()], 0), ([()], 1), ([()], 0), ([()], 1)] 2) CrossEntropyLoss
   \<noteq> evaluate_spec (\<lambda>images. map (\<lambda>x. [0, 0]) images)
      (make_loader [([()], 0), ([()], 1), ([()], 0), ([()], 1)] 2) CrossEntropyLoss"
proof -
  have l: "make_loader [([()], 0), ([()], 1), ([()], 0), ([()], 1)] 2 =
      \<lparr>batches = [([[()], [()]], [0, 1]), ([[()], [()]], [0, 1])], sampler_len = 4\<rparr>"
    by (simp add: make_loader_def chunks.simps)
  have ce: "CrossEntropyLoss [[0, 0], [0, 0]] [0, Suc 0] = Inr (Some (ln 2))"
    by (simp add: CrossEntropyLoss_def mean_def)
  show ?thesis
    unfolding l
    by (simp add: evaluate_spec_def evaluate_locals_def torch_max1_def argmax_def
        count_equal_def ce sadd_def normalize_def sdiv_def)
qed

section \<open>Properties of the checkpoint path\<close>

lemma hd_rsplit: "hd (rsplit c s) = takeWhile (\<lambda>x. x \<noteq> c) s \<and> rsplit c s \<noteq> []"
  by (induction s) (auto split: list.splits)

lemma checkpoint_filename_eq:
  "checkpoint_filename a =
     (if score a = ''OE'' then takeWhile (\<lambda>x. x \<noteq> CHR ''.'') (model_filename a) @ ''_OE.pth''
      else if score a = ''energy'' then takeWhile (\<lambda>x. x \<noteq> CHR ''.'') (model_filename a) @ ''_energy.pth''
      else model_filename a)"
  by (simp add: checkpoint_filename_def hd_rsplit)

lemma stem_pth:
  assumes "CHR ''.'' \<notin> set stem"
  shows "takeWhile (\<lambda>x. x \<noteq> CHR ''.'') (stem @ ''.pth'') = stem"
    and "suffixed_before_extension (stem @ ''.pth'') suffix = stem @ suffix @ ''.pth''"
proof -
  show "takeWhile (\<lambda>x. x \<noteq> CHR ''.'') (stem @ ''.pth'') = stem"
    using assms by (induction stem) auto
  show "suffixed_before_extension (stem @ ''.pth'') suffix = stem @ suffix @ ''.pth''"
    by (simp add: suffixed_before_extension_def)
qed

lemma join_inj:
  assumes "os_path_join d x = os_path_join d y" "take 1 x = ''/'' \<longleftrightarrow> take 1 y = ''/''"
  shows "x = y"
  using assms by (auto simp: os_path_join_def split: if_splits)

lemma base_absolute:
  "take 1 (takeWhile (\<lambda>x. x \<noteq> CHR ''.'') f @ CHR ''_'' # s) = ''/'' \<longleftrightarrow> take 1 f = ''/''"
  by (cases f) auto

lemma base_suffix_neq:
  assumes "CHR ''.'' \<notin> set s1"
  shows "takeWhile (\<lambda>x. x \<noteq> CHR ''.'') f @ CHR ''_'' # s1 @ ''.pth'' \<noteq> f"
proof
  let ?P = "\<lambda>x. x \<noteq> CHR ''.''"
  let ?b = "takeWhile ?P f"
  assume eq: "?b @ CHR ''_'' # s1 @ ''.pth'' = f"
  have "\<forall>x\<in>set (?b @ CHR ''_'' # s1). ?P x"
    using assms by (auto dest: set_takeWhileD)
  then have "takeWhile ?P ((?b @ CHR ''_'' # s1) @ ''.pth'') = (?b @ CHR ''_'' # s1) @ takeWhile ?P ''.pth''"
    by (intro takeWhile_append2) blast
  then have "takeWhile ?P ((?b @ CHR ''_'' # s1) @ ''.pth'') = ?b @ CHR ''_'' # s1"
    by simp
  with eq have "?b = ?b @ CHR ''_'' # s1" by simp
  then show False by simp
qed

lemma paths_distinct:
  "model_filepath (a\<lparr>score := ''energy''\<rparr>) \<noteq> model_filepath (a\<lparr>score := ''OE''\<rparr>)
   \<and> (mode \<noteq> ''energy'' \<longrightarrow> mode \<noteq> ''OE'' \<longrightarrow>
        model_filepath (a\<lparr>score := mode\<rparr>) \<noteq> model_filepath (a\<lparr>score := ''energy''\<rparr>)
        \<and> model_filepath (a\<lparr>score := mode\<rparr>) \<noteq> model_filepath (a\<lparr>score := ''OE''\<rparr>))"
proof -
  let ?b = "takeWhile (\<lambda>x. x \<noteq> CHR ''.'') (model_filename a)"
  have e: "model_filepath (a\<lparr>score := ''energy''\<rparr>) = os_path_join (model_dir a) (?b @ ''_energy.pth'')"
    by (simp add: model_filepath_def checkpoint_filename_eq)
  have o: "model_filepath (a\<lparr>score := ''OE''\<rparr>) = os_path_join (model_dir a) (?b @ ''_OE.pth'')"
    by (simp add: model_filepath_def checkpoint_filename_eq)
  have n: "model_filepath (a\<lparr>score := mode\<rparr>) = os_path_join (model_dir a) (model_filename a)"
    if "mode \<noteq> ''energy''" "mode \<noteq> ''OE''"
    using that by (simp add: model_filepath_def checkpoint_filename_eq)
  have ae: "take 1 (?b @ ''_energy.pth'') = ''/'' \<longleftrightarrow> take 1 (model_filename a) = ''/''"
    using base_absolute[of "model_filename a" "''energy.pth''"] by simp
  have ao: "take 1 (?b @ ''_OE.pth'') = ''/'' \<longleftrightarrow> take 1 (model_filename a) = ''/''"
    using base_absolute[of "model_filename a" "''OE.pth''"] by simp
  have ne: "?b @ ''_energy.pth'' \<noteq> model_filename a"
    using base_suffix_neq[of "''energy''" "model_filename a"] by simp
  have no: "?b @ ''_OE.pth'' \<noteq> model_filename a"
    using base_suffix_neq[of "''OE''" "model_filename a"] by simp
  have eo: "?b @ ''_energy.pth'' \<noteq> ?b @ ''_OE.pth''" by simp
  have 1: "os_path_join (model_dir a) (?b @ ''_energy.pth'') \<noteq> os_path_join (model_dir a) (?b @ ''_OE.pth'')"
    using join_inj[of "model_dir a" "?b @ ''_energy.pth''" "?b @ ''_OE.pth''"] ae ao eo by blast
  have 2: "os_path_join (model_dir a) (model_filename a) \<noteq> os_path_join (model_dir a) (?b @ ''_energy.pth'')"
    using join_inj[of "model_dir a" "model_filename a" "?b @ ''_energy.pth''"] ae ne by metis
  have 3: "os_path_join (model_dir a) (model_filename a) \<noteq> os_path_join (model_dir a) (?b @ ''_OE.pth'')"
    using join_inj[of "model_dir a" "model_filename a" "?b @ ''_OE.pth''"] ao no by metis
  show ?thesis using 1 2 3 e o n by simp
qed

text \<open>
  Where the cut of lines 83 and 85 does find the extension: for a configured file name
  \<open>stem.pth\<close> whose stem has no dot, the checkpoint path in the mode \<^verbatim>\<open>energy\<close>
  (\<^verbatim>\<open>OE\<close>) is the model directory joined with \<open>stem_energy.pth\<close> (\<open>stem_OE.pth\<close>). For
  every configured file name and directory, the paths of the two modes and of a run without
  regularization are pairwise distinct.
\<close>

lemma checkpoint_path_suffix:
  "(CHR ''.'' \<notin> set stem \<longrightarrow> model_filename a = stem @ ''.pth'' \<longrightarrow>
      (score a = ''energy'' \<longrightarrow>
         model_filepath a = os_path_join (model_dir a) (stem @ ''_energy.pth'')
         \<and> model_filepath a = checkpoint_path_spec a)
      \<and> (score a = ''OE'' \<longrightarrow>
         model_filepath a = os_path_join (model_dir a) (stem @ ''_OE.pth'')
         \<and> model_filepath a = checkpoint_path_spec a))
   \<and> model_filepath (a\<lparr>score := ''energy''\<rparr>) \<noteq> model_filepath (a\<lparr>score := ''OE''\<rparr>)
   \<and> (mode \<noteq> ''energy'' \<longrightarrow> mode \<noteq> ''OE'' \<longrightarrow>
        model_filepath (a\<lparr>score := mode\<rparr>) \<noteq> model_filepath (a\<lparr>score := ''energy''\<rparr>)
        \<and> model_filepath (a\<lparr>score := mode\<rparr>) \<noteq> model_filepath (a\<lparr>score := ''OE''\<rparr>))"
  using paths_distinct[of a mode]
  by (auto simp: model_filepath_def checkpoint_path_spec_def checkpoint_filename_eq stem_pth)

section \<open>Properties of the mode and of the seeds\<close>

lemma batch_loss_unrecognized:
  "mode \<noteq> ''energy'' \<Longrightarrow> mode \<noteq> ''OE'' \<Longrightarrow>
   batch_loss criterion mode inputs labels outputs = criterion outputs labels"
  by (simp add: batch_loss_def regularization_def split: sum.splits)

lemma train_batches_unrecognized:
  "mode \<noteq> ''energy'' \<Longrightarrow> mode \<noteq> ''OE'' \<Longrightarrow>
   train_batches w mode bs (m, s) = train_batches w ''None'' bs (m, s)"
proof (induction bs arbitrary: m s)
  case Nil
  then show ?case by simp
next
  case (Cons b bs)
  obtain inputs labels where b: "b = (inputs, labels)" by (cases b)
  show ?case
    unfolding b using Cons.prems Cons.IH[OF Cons.prems]
    by (simp add: batch_loss_unrecognized split: sum.splits)
qed

lemma filepath_unrecognized:
  "score a \<noteq> ''energy'' \<Longrightarrow> score a \<noteq> ''OE'' \<Longrightarrow>
   model_filepath (a\<lparr>score := ''None''\<rparr>) = model_filepath a"
  by (simp add: model_filepath_def checkpoint_filename_def)

lemma train_epoch_unrecognized:
  assumes "score a \<noteq> ''energy''" "score a \<noteq> ''OE''"
  shows "train_epoch w (a\<lparr>score := ''None''\<rparr>) tld e m = train_epoch w a tld e m"
  using assms
  by (simp add: train_epoch_def periodic_def filepath_unrecognized train_loader_def
      train_batches_unrecognized[of "score a"]
      cong: sum.case_cong prod.case_cong option.case_cong if_cong)

lemma run_epochs_unrecognized:
  assumes "score a \<noteq> ''energy''" "score a \<noteq> ''OE''"
  shows "run_epochs w (a\<lparr>score := ''None''\<rparr>) tld es m = run_epochs w a tld es m"
  by (induction es arbitrary: m) (simp_all add: train_epoch_unrecognized[OF assms])

lemma main_unrecognized:
  assumes "score a \<noteq> ''energy''" "score a \<noteq> ''OE''"
  shows "main w (a\<lparr>score := ''None''\<rparr>) r = main w a r"
  using assms
  by (simp add: main_def construct_model_def resume_model_def prepare_data_def eval_or_train_def
      filepath_unrecognized run_epochs_unrecognized
      cong: sum.case_cong prod.case_cong option.case_cong if_cong)

text \<open>
  Claim C10. For every value of \<^verbatim>\<open>--score\<close> other than the strings \<^verbatim>\<open>energy\<close> and
  \<^verbatim>\<open>OE\<close>, the branch on the mode raises nothing and adds nothing (the loss of a batch is
  the result of the criterion), the file name of the checkpoint is the configured one, and the
  whole run is the run with the default \<^verbatim>\<open>None\<close>.
\<close>

theorem unrecognized_score_is_plain_training:
  assumes "score a \<noteq> ''energy''" "score a \<noteq> ''OE''"
  shows "regularization (score a) inputs outputs = Inr None
    \<and> batch_loss criterion (score a) inputs labels outputs = criterion outputs labels
    \<and> checkpoint_filename a = model_filename a
    \<and> model_filepath a = os_path_join (model_dir a) (model_filename a)
    \<and> main w a r = main w (a\<lparr>score := ''None''\<rparr>) r"
  using assms
  by (simp add: regularization_def batch_loss_unrecognized checkpoint_filename_def
      model_filepath_def main_unrecognized)


section \<open>Properties of a run\<close>

lemma evaluate_events:
  assumes "evaluate model tld e criterion wr = (es, r)"
  shows "\<exists>rest. es = ModelEval # rest \<and> (\<forall>x\<in>set rest. \<exists>t v. x = AddScalar t v e) \<and> (\<not> wr \<longrightarrow> rest = [])"
  using assms by (auto simp: evaluate_def split: sum.splits prod.splits if_splits)

lemma train_batches_sum:
  "train_batches w mode bs (m, s) = (es, r) \<Longrightarrow>
     set es \<subseteq> {OptimizerStep}
     \<and> (\<forall>m' s'. r = Inr (m', s') \<longrightarrow>
          s' = foldl sadd s (batch_losses w mode bs m)
          \<and> length (batch_losses w mode bs m) = length bs
          \<and> es = replicate (length bs) OptimizerStep)"
proof (induction bs arbitrary: m s es r)
  case Nil
  then show ?case by auto
next
  case (Cons b bs)
  obtain inputs labels where b: "b = (inputs, labels)" by (cases b)
  show ?case
  proof (cases "batch_loss CrossEntropyLoss mode inputs labels (forward w True m inputs)")
    case (Inl err)
    with Cons.prems b show ?thesis by auto
  next
    case (Inr loss)
    obtain es' r' where rec:
      "train_batches w mode bs (backward_step w m inputs labels, sadd s loss) = (es', r')"
      by (cases "train_batches w mode bs (backward_step w m inputs labels, sadd s loss)")
    with Cons.prems b Inr have es: "es = OptimizerStep # es'" and r: "r = r'" by auto
    from Cons.IH[OF rec] show ?thesis
      using es r b Inr by auto
  qed
qed

lemma train_epoch_shape:
  fixes w :: "('c, 'm, 'p) world" and tr :: "'p event list"
  assumes "train_epoch w a tld e m = (tr, r)"
  shows "(e mod 10 = 0 \<and> local_rank a = Some 0 \<longrightarrow>
            (\<exists>ev rv. evaluate (forward w False m) tld e CrossEntropyLoss True = (ev, rv)
               \<and> (case rv of
                     Inl err \<Rightarrow> tr = Print (Training (local_rank a) e) # ev \<and> r = Inl err
                   | Inr acc \<Rightarrow>
                       if writable w (model_filepath a)
                       then (\<exists>tb. tr = Print (Training (local_rank a) e) # ev
                                 @ [TorchSave (state_dict w m) (model_filepath a), Print Dashes,
                                    Print (EpochAccuracy e acc), Print Dashes]
                                 @ ModelTrain # tb
                          \<and> (\<forall>x\<in>set tb. x = OptimizerStep \<or> (\<exists>v. x = AddScalar ''Loss/train'' v e)))
                       else tr = Print (Training (local_rank a) e) # ev \<and> r = Inl RuntimeError)))
       \<and> (\<not> (e mod 10 = 0 \<and> local_rank a = Some 0) \<longrightarrow>
            (\<exists>tb. tr = Print (Training (local_rank a) e) # ModelTrain # tb
               \<and> (\<forall>x\<in>set tb. x = OptimizerStep \<or> (\<exists>v. x = AddScalar ''Loss/train'' v e))))"
proof -
  obtain tb rb where tb: "train_batches w (score a) (batches (train_loader w a e)) (m, Some 0) = (tb, rb)"
    by (cases "train_batches w (score a) (batches (train_loader w a e)) (m, Some 0)")
  from train_batches_sum[OF tb] have steps: "\<forall>x\<in>set tb. x = OptimizerStep" by auto
  obtain ev rv where ev: "evaluate (forward w False m) tld e CrossEntropyLoss True = (ev :: 'p event list, rv)"
    by (cases "evaluate (forward w False m) tld e CrossEntropyLoss True :: 'p event list \<times> _")
  show ?thesis
    using assms tb steps ev
    by (auto simp: train_epoch_def periodic_def split: sum.splits prod.splits if_splits)
qed

lemma run_epochs_nth:
  "run_epochs w a tld es m = (ess, res) \<Longrightarrow>
     length ess \<le> length es
     \<and> (\<forall>i<length ess. \<exists>mi r. train_epoch w a tld (es ! i) mi = (ess ! i, r)
            \<and> ((\<exists>m'. res = Inr m') \<longrightarrow> (\<exists>m''. r = Inr m'')))
     \<and> ((\<exists>m'. res = Inr m') \<longrightarrow> length ess = length es)"
proof (induction es arbitrary: m ess res)
  case Nil
  then show ?case by simp
next
  case (Cons e es)
  obtain tr r where te: "train_epoch w a tld e m = (tr, r)"
    by (cases "train_epoch w a tld e m")
  show ?case
  proof (cases r)
    case (Inl err)
    with Cons.prems te have "ess = [tr]" "res = Inl err" by auto
    with te Inl show ?thesis by auto
  next
    case (Inr m1)
    obtain ess' res' where rec: "run_epochs w a tld es m1 = (ess', res')"
      by (cases "run_epochs w a tld es m1")
    with Cons.prems te Inr have ess: "ess = tr # ess'" and res: "res = res'" by auto
    note ih = Cons.IH[OF rec]
    have "\<exists>mi r. train_epoch w a tld ((e # es) ! i) mi = (ess ! i, r)
            \<and> ((\<exists>m'. res = Inr m') \<longrightarrow> (\<exists>m''. r = Inr m''))" if "i < length ess" for i
    proof (cases i)
      case 0
      have "train_epoch w a tld ((e # es) ! i) m = (ess ! i, Inr m1)"
        using 0 te Inr ess by simp
      then show ?thesis by blast
    next
      case (Suc j)
      with that ess have "j < length ess'" by simp
      with ih obtain mi r' where j: "train_epoch w a tld (es ! j) mi = (ess' ! j, r')"
        "(\<exists>m'. res' = Inr m') \<longrightarrow> (\<exists>m''. r' = Inr m'')" by blast
      have "train_epoch w a tld ((e # es) ! i) mi = (ess ! i, r')"
        using j(1) Suc ess by simp
      with j(2) res show ?thesis by blast
    qed
    with ih ess res show ?thesis by auto
  qed
qed

lemma train_epoch_saves:
  fixes w :: "('c, 'm, 'p) world" and tr :: "'p event list"
  assumes "train_epoch w a tld e m = (tr, r)"
  shows "(filter is_save tr \<noteq> [] \<longrightarrow>
            e mod 10 = 0 \<and> local_rank a = Some 0
            \<and> filter is_save tr = [TorchSave (state_dict w m) (model_filepath a)]
            \<and> ModelEval \<in> set (takeWhile (\<lambda>x. \<not> is_save x) tr))
       \<and> (\<not> (e mod 10 = 0 \<and> local_rank a = Some 0) \<longrightarrow> filter is_save tr = [] \<and> ModelEval \<notin> set tr)
       \<and> (e mod 10 = 0 \<and> local_rank a = Some 0 \<longrightarrow> (\<exists>m'. r = Inr m') \<longrightarrow> filter is_save tr \<noteq> [])"
proof (cases "e mod 10 = 0 \<and> local_rank a = Some 0")
  case False
  with train_epoch_shape[OF assms] obtain tb where
    "tr = Print (Training (local_rank a) e) # ModelTrain # tb"
    "\<forall>x\<in>set tb. x = OptimizerStep \<or> (\<exists>v. x = AddScalar ''Loss/train'' v e)"
    by blast
  then have "filter is_save tr = []" "ModelEval \<notin> set tr"
    by (auto simp: filter_empty_conv)
  with False show ?thesis by blast
next
  case True
  with train_epoch_shape[OF assms] obtain ev rv where
    ev: "evaluate (forward w False m) tld e CrossEntropyLoss True = (ev, rv)" and
    sh: "case rv of
           Inl err \<Rightarrow> tr = Print (Training (local_rank a) e) # ev \<and> r = Inl err
         | Inr acc \<Rightarrow>
             if writable w (model_filepath a)
             then (\<exists>tb. tr = Print (Training (local_rank a) e) # ev
                       @ [TorchSave (state_dict w m) (model_filepath a), Print Dashes,
                          Print (EpochAccuracy e acc), Print Dashes]
                       @ ModelTrain # tb
                \<and> (\<forall>x\<in>set tb. x = OptimizerStep \<or> (\<exists>v. x = AddScalar ''Loss/train'' v e)))
             else tr = Print (Training (local_rank a) e) # ev \<and> r = Inl RuntimeError"
    by blast
  from evaluate_events[OF ev] obtain rest where
    rest: "ev = ModelEval # rest" "\<forall>x\<in>set rest. \<exists>t v. x = AddScalar t v e" by blast
  then have fr: "filter is_save rest = []" "takeWhile (\<lambda>x. \<not> is_save x) rest = rest"
    by (auto simp: filter_empty_conv takeWhile_eq_all_conv)
  show ?thesis
  proof (cases rv)
    case (Inl err)
    with sh rest fr have "filter is_save tr = []" "r = Inl err" by auto
    with True show ?thesis by simp
  next
    case (Inr acc)
    show ?thesis
    proof (cases "writable w (model_filepath a)")
      case False
      with sh Inr rest fr have "filter is_save tr = []" "r = Inl RuntimeError" by auto
      with True show ?thesis by simp
    next
      case wr: True
      with sh Inr obtain tb where
        tr: "tr = Print (Training (local_rank a) e) # ev
                         @ [TorchSave (state_dict w m) (model_filepath a), Print Dashes,
                            Print (EpochAccuracy e acc), Print Dashes]
                         @ ModelTrain # tb" and
        tb: "\<forall>x\<in>set tb. x = OptimizerStep \<or> (\<exists>v. x = AddScalar ''Loss/train'' v e)"
        by auto
      from tb have ftb: "filter is_save tb = []" by (auto simp: filter_empty_conv)
      have 1: "filter is_save tr = [TorchSave (state_dict w m) (model_filepath a)]"
        unfolding tr rest using fr ftb by simp
      have 2: "ModelEval \<in> set (takeWhile (\<lambda>x. \<not> is_save x) tr)"
        unfolding tr rest by simp
      from 1 2 True show ?thesis by simp
    qed
  qed
qed

lemma run_epochs_upt_nth:
  assumes "run_epochs w a tld [0..<n] m = (ess, res)" "e < length ess"
  shows "\<exists>mi r. train_epoch w a tld e mi = (ess ! e, r)
            \<and> ((\<exists>m'. res = Inr m') \<longrightarrow> (\<exists>m''. r = Inr m''))"
proof -
  note nth = run_epochs_nth[OF assms(1)]
  from nth assms(2) have "e < n" by simp
  then have "[0..<n] ! e = e" by simp
  moreover from nth assms(2) have "\<exists>mi r. train_epoch w a tld ([0..<n] ! e) mi = (ess ! e, r)
            \<and> ((\<exists>m'. res = Inr m') \<longrightarrow> (\<exists>m''. r = Inr m''))" by blast
  ultimately show ?thesis by simp
qed

text \<open>
  Claim C3. In the loop over the epochs \<open>0, ..., n - 1\<close>, the effects of an epoch hold a
  checkpoint write only if the epoch is a multiple of ten and the local rank is \<open>0\<close>; the
  write is then the only one of the epoch, goes to the checkpoint path, and comes after the
  call of the evaluator. In every other epoch and on every other local rank there is no write
  and no call of the evaluator. When the loop runs to its end, it entered all \<open>n\<close> epochs and
  every epoch that is a multiple of ten has its write on local rank \<open>0\<close>. The rank the
  program reads is its \<^verbatim>\<open>--local_rank\<close> argument.
\<close>

theorem periodic_eval_then_save:
  fixes w :: "('c, 'm, 'p) world"
  assumes "run_epochs w a tld [0..<n] m = (ess, res)"
  shows "length ess \<le> n
    \<and> (\<forall>e<length ess.
          (filter is_save (ess ! e) \<noteq> [] \<longrightarrow>
             e mod 10 = 0 \<and> local_rank a = Some 0
             \<and> (\<exists>sd. filter is_save (ess ! e) = [TorchSave sd (model_filepath a)])
             \<and> ModelEval \<in> set (takeWhile (\<lambda>x. \<not> is_save x) (ess ! e)))
        \<and> (\<not> (e mod 10 = 0 \<and> local_rank a = Some 0) \<longrightarrow>
             filter is_save (ess ! e) = [] \<and> ModelEval \<notin> set (ess ! e)))
    \<and> ((\<exists>m'. res = Inr m') \<longrightarrow>
          length ess = n
          \<and> (\<forall>e<n. e mod 10 = 0 \<and> local_rank a = Some 0 \<longrightarrow> filter is_save (ess ! e) \<noteq> []))"
proof (intro conjI allI impI)
  note nth = run_epochs_nth[OF assms]
  show "length ess \<le> n" using nth by simp
  show "length ess = n" if "\<exists>m'. res = Inr m'" using nth that by simp
next
  fix e assume e: "e < length ess" and f: "filter is_save (ess ! e) \<noteq> []"
  from run_epochs_upt_nth[OF assms e] obtain mi r where
    te: "train_epoch w a tld e mi = (ess ! e, r)" by blast
  from train_epoch_saves[OF te] f
  have "e mod 10 = 0 \<and> local_rank a = Some 0
            \<and> filter is_save (ess ! e) = [TorchSave (state_dict w mi) (model_filepath a)]
            \<and> ModelEval \<in> set (takeWhile (\<lambda>x. \<not> is_save x) (ess ! e))" by simp
  then show "e mod 10 = 0" "local_rank a = Some 0"
    "\<exists>sd. filter is_save (ess ! e) = [TorchSave sd (model_filepath a)]"
    "ModelEval \<in> set (takeWhile (\<lambda>x. \<not> is_save x) (ess ! e))"
    by simp_all
next
  fix e assume e: "e < length ess" and c: "\<not> (e mod 10 = 0 \<and> local_rank a = Some 0)"
  from run_epochs_upt_nth[OF assms e] obtain mi r where
    te: "train_epoch w a tld e mi = (ess ! e, r)" by blast
  from train_epoch_saves[OF te] c
  have "filter is_save (ess ! e) = [] \<and> ModelEval \<notin> set (ess ! e)" by simp
  then show "filter is_save (ess ! e) = []" "ModelEval \<notin> set (ess ! e)" by simp_all
next
  fix e assume ok: "\<exists>m'. res = Inr m'" and e: "e < n"
    and c: "e mod 10 = 0 \<and> local_rank a = Some 0"
  from run_epochs_nth[OF assms] ok have "length ess = n" by simp
  with e have e': "e < length ess" by simp
  from run_epochs_upt_nth[OF assms e'] ok obtain mi r m'' where
    te: "train_epoch w a tld e mi = (ess ! e, r)" and r: "r = Inr m''" by blast
  from train_epoch_saves[OF te] c r
  show "filter is_save (ess ! e) \<noteq> []" by simp
qed

lemma chunks_Nil: "0 < n \<Longrightarrow> chunks n xs = [] \<longleftrightarrow> xs = []"
  by (subst chunks.simps) simp

lemma train_loader_facts:
  "sampler_len (train_loader w a e) = length (train_indices w)"
  "0 < batch_size a \<Longrightarrow> batches (train_loader w a e) = [] \<longleftrightarrow> train_indices w = []"
  "0 < batch_size a \<Longrightarrow>
     (\<Sum>(inputs, labels)\<leftarrow>batches (train_loader w a e). length labels) = length (train_indices w)"
  using make_loader_total[of "nat (batch_size a)" "map (train_item w e) (train_indices w)"]
  by (simp_all add: train_loader_def make_loader_def chunks_Nil)

lemma train_epoch_loss:
  fixes w :: "('c, 'm, 'p) world" and tr :: "'p event list"
  assumes "train_epoch w a tld e m = (tr, Inr m')" "0 < batch_size a"
  shows "tr \<noteq> []
    \<and> last tr = AddScalar ''Loss/train''
         (sdiv (foldl sadd (Some 0) (batch_losses w (score a) (batches (train_loader w a e)) m))
               (sampler_len (train_loader w a e))) e
    \<and> length (batch_losses w (score a) (batches (train_loader w a e)) m)
        = length (batches (train_loader w a e))"
proof -
  obtain ps u where ps: "periodic w a tld e m = (ps, Inr u)"
    using assms(1) by (auto simp: train_epoch_def split: sum.splits prod.splits)
  obtain tb s where tb:
    "train_batches w (score a) (batches (train_loader w a e)) (m, Some 0) = (tb, Inr (m', s))"
    using assms(1) ps by (auto simp: train_epoch_def split: sum.splits prod.splits)
  obtain avg where avg:
    "normalize (batches (train_loader w a e) = []) s (sampler_len (train_loader w a e)) = Inr avg"
    and tr: "tr = Print (Training (local_rank a) e) # ps @ ModelTrain # tb
                    @ [AddScalar ''Loss/train'' avg e]"
    using assms(1) ps tb by (auto simp: train_epoch_def split: sum.splits prod.splits)
  from train_batches_sum[OF tb]
  have s: "s = foldl sadd (Some 0) (batch_losses w (score a) (batches (train_loader w a e)) m)"
    and len: "length (batch_losses w (score a) (batches (train_loader w a e)) m)
        = length (batches (train_loader w a e))"
    by auto
  have "batches (train_loader w a e) \<noteq> []"
  proof
    assume emp: "batches (train_loader w a e) = []"
    with train_loader_facts(2)[OF assms(2), of w e] have "train_indices w = []" by simp
    then have "sampler_len (train_loader w a e) = 0" by (simp add: train_loader_facts(1))
    with avg emp show False by (simp add: normalize_def)
  qed
  with avg have "avg = sdiv s (sampler_len (train_loader w a e))"
    by (simp add: normalize_def)
  with tr s len show ?thesis by simp
qed

text \<open>
  Claim C6. When the loop over the epochs runs to its end with a positive batch size, then
  for every epoch, whatever the local rank, the last effect of the epoch writes to the metric
  sink, under \<^verbatim>\<open>Loss/train\<close> and the index of the epoch, the sum of the losses of the
  batches of the epoch divided by the length of the sampler, which is the number of examples
  of this worker (not the number of its batches).
\<close>

theorem train_loss_logged_every_epoch:
  fixes w :: "('c, 'm, 'p) world"
  assumes "run_epochs w a tld [0..<n] m = (ess, Inr m')" "0 < batch_size a"
  shows "length ess = n
    \<and> (\<forall>e<n. \<exists>mi.
          ess ! e \<noteq> []
          \<and> last (ess ! e) = AddScalar ''Loss/train''
               (sdiv (foldl sadd (Some 0)
                        (batch_losses w (score a) (batches (train_loader w a e)) mi))
                     (sampler_len (train_loader w a e))) e
          \<and> length (batch_losses w (score a) (batches (train_loader w a e)) mi)
               = length (batches (train_loader w a e))
          \<and> sampler_len (train_loader w a e) = length (train_indices w)
          \<and> (\<Sum>(inputs, labels)\<leftarrow>batches (train_loader w a e). length labels)
               = length (train_indices w))"
proof (intro conjI allI impI)
  show len: "length ess = n" using run_epochs_nth[OF assms(1)] by simp
  fix e assume "e < n"
  with len have e: "e < length ess" by simp
  from run_epochs_upt_nth[OF assms(1) e] obtain mi m'' where
    te: "train_epoch w a tld e mi = (ess ! e, Inr m'')" by blast
  from train_epoch_loss[OF te assms(2)] train_loader_facts(1)[of w a e]
    train_loader_facts(3)[OF assms(2), of w e]
  show "\<exists>mi.
          ess ! e \<noteq> []
          \<and> last (ess ! e) = AddScalar ''Loss/train''
               (sdiv (foldl sadd (Some 0)
                        (batch_losses w (score a) (batches (train_loader w a e)) mi))
                     (sampler_len (train_loader w a e))) e
          \<and> length (batch_losses w (score a) (batches (train_loader w a e)) mi)
               = length (batches (train_loader w a e))
          \<and> sampler_len (train_loader w a e) = length (train_indices w)
          \<and> (\<Sum>(inputs, labels)\<leftarrow>batches (train_loader w a e). length labels)
               = length (train_indices w)"
    by (intro exI[of _ mi]) simp
qed

lemma construct_model_outcomes:
  assumes "construct_model w a r = (es, x)"
  shows "set es \<subseteq> {InitProcessGroup}
    \<and> (case x of Inl e \<Rightarrow> e = RuntimeError \<or> e = ValueError
                 | Inr m \<Rightarrow> es = [InitProcessGroup] \<and> (\<exists>i. local_rank a = Some i \<and> 0 \<le> i \<and> i < device_count w))"
  using assms
  by (auto simp: construct_model_def set_random_seeds_def
      split: sum.splits if_splits prod.splits option.splits)

lemma resume_model_outcomes:
  assumes "resume_model w a m = (es, x)"
  shows "(\<not> resume a \<longrightarrow> es = [] \<and> x = Inr m)
    \<and> (resume a \<longrightarrow>
         (case files w (model_filepath a) of
            None \<Rightarrow> es = [] \<and> x = Inl FileNotFoundError
          | Some sd \<Rightarrow>
              (case load_state_dict w m sd of
                 None \<Rightarrow> es = [TorchLoad (model_filepath a) [(''cuda:0'', cuda_device (local_rank a))]]
                           \<and> x = Inl RuntimeError
               | Some m' \<Rightarrow> es = [TorchLoad (model_filepath a) [(''cuda:0'', cuda_device (local_rank a))],
                                   LoadStateDict sd] \<and> x = Inr m')))"
  using assms
  by (auto simp: resume_model_def Let_def split: option.splits)

lemma eval_branch:
  fixes w :: "('c, 'm, 'p) world" and es :: "'p event list"
  assumes "eval a" "eval_or_train w a tld m = (es, x)"
  shows "(\<exists>e. es = [ModelEval] \<and> x = Inl e
              \<and> evaluate (forward w False m) tld 0 CrossEntropyLoss False = ([ModelEval] :: 'p event list, Inl e))
       \<or> (\<exists>acc. es = [ModelEval, Print (TestAccuracy acc)] \<and> x = Inl (SystemExit 0)
              \<and> evaluate (forward w False m) tld 0 CrossEntropyLoss False = ([ModelEval] :: 'p event list, Inr acc))"
proof -
  obtain ev rv where ev: "evaluate (forward w False m) tld 0 CrossEntropyLoss False = (ev :: 'p event list, rv)"
    by (cases "evaluate (forward w False m) tld 0 CrossEntropyLoss False :: 'p event list \<times> _")
  from evaluate_events[OF ev] have e1: "ev = [ModelEval]" by auto
  show ?thesis
  proof (cases rv)
    case (Inl e)
    with assms ev e1 show ?thesis by (auto simp: eval_or_train_def)
  next
    case (Inr acc)
    with assms ev e1 show ?thesis by (auto simp: eval_or_train_def)
  qed
qed

text \<open>
  Claim C4. With \<^verbatim>\<open>--eval\<close>, whatever happens, the run has no optimizer step, no
  checkpoint write, no switch to training mode and no write to the metric sink, and it never
  ends as a training run does. When the set-up succeeds and the evaluator returns an
  accuracy, the run ends right after printing it, with \<^verbatim>\<open>exit()\<close> and the status \<open>0\<close>.
\<close>

theorem eval_flag_only_evaluates:
  fixes w :: "('c, 'm, 'p) world"
  assumes "eval a"
  shows "OptimizerStep \<notin> set (fst (main w a r))
    \<and> filter is_save (fst (main w a r)) = []
    \<and> ModelTrain \<notin> set (fst (main w a r))
    \<and> (\<forall>x \<in> set (fst (main w a r)). \<forall>t v e. x \<noteq> AddScalar t v e)
    \<and> snd (main w a r) \<noteq> Inr ()
    \<and> (\<forall>es0 m0 es1 m tld acc.
          construct_model w a r = (es0, Inr m0) \<longrightarrow>
          resume_model w a m0 = (es1, Inr m) \<longrightarrow>
          prepare_data w a = Inr tld \<longrightarrow>
          evaluate (forward w False m) tld 0 CrossEntropyLoss False
            = ([ModelEval] :: 'p event list, Inr acc) \<longrightarrow>
          main w a r = (es0 @ es1 @ [ModelEval, Print (TestAccuracy acc)], Inl (SystemExit 0))
          \<and> exit_status (snd (main w a r)) = 0)"
proof -
  obtain es0 x0 where c: "construct_model w a r = (es0, x0)"
    by (cases "construct_model w a r")
  note co = construct_model_outcomes[OF c]
  have quiet0: "\<forall>x\<in>set es0. x = InitProcessGroup" using co by auto
  have main_shape:
    "(\<exists>e. main w a r = (es0, Inl e))
     \<or> (\<exists>m0 es1 e. main w a r = (es0 @ es1, Inl e) \<and> resume_model w a m0 = (es1, Inl e))
     \<or> (\<exists>m0 es1 m e. main w a r = (es0 @ es1, Inl e) \<and> resume_model w a m0 = (es1, Inr m))
     \<or> (\<exists>m0 es1 m tld es2 e. main w a r = (es0 @ es1 @ es2, Inl e)
           \<and> resume_model w a m0 = (es1, Inr m)
           \<and> eval_or_train w a tld m = (es2, Inl e))"
  proof (cases x0)
    case (Inl e)
    with c show ?thesis by (simp add: main_def)
  next
    case (Inr m0)
    obtain es1 x1 where rm: "resume_model w a m0 = (es1, x1)" by (cases "resume_model w a m0")
    show ?thesis
    proof (cases x1)
      case (Inl e)
      with c Inr rm show ?thesis by (auto simp: main_def)
    next
      case m: (Inr m)
      show ?thesis
      proof (cases "prepare_data w a")
        case (Inl e)
        with c Inr rm m show ?thesis by (auto simp: main_def)
      next
        case tld: (Inr tld)
        obtain es2 x2 where et: "eval_or_train w a tld m = (es2, x2)"
          by (cases "eval_or_train w a tld m")
        from eval_branch[OF assms et] obtain e where "x2 = Inl e" by auto
        with c Inr rm m tld et show ?thesis by (auto simp: main_def)
      qed
    qed
  qed
  have quiet1: "\<forall>x\<in>set es1. (\<exists>p ml. x = TorchLoad p ml) \<or> (\<exists>sd. x = LoadStateDict sd)"
    if "resume_model w a m0 = (es1, x1)" for m0 es1 x1
    using resume_model_outcomes[OF that] by (auto split: option.splits)
  have quiet2: "\<forall>x\<in>set es2. x = ModelEval \<or> (\<exists>acc. x = Print (TestAccuracy acc))"
    if "eval_or_train w a tld m = (es2, x2)" for tld m es2 x2
    using eval_branch[OF assms that] by auto
  have quiet: "\<forall>x\<in>set (fst (main w a r)).
      x = InitProcessGroup \<or> (\<exists>p ml. x = TorchLoad p ml) \<or> (\<exists>sd. x = LoadStateDict sd)
      \<or> x = ModelEval \<or> (\<exists>acc. x = Print (TestAccuracy acc))"
    using main_shape
  proof (elim disjE exE conjE)
    fix e assume "main w a r = (es0, Inl e)"
    with quiet0 show ?thesis by auto
  next
    fix m0 es1 e
    assume mn: "main w a r = (es0 @ es1, Inl e)" and rm: "resume_model w a m0 = (es1, Inl e)"
    from quiet1[OF rm] quiet0 mn show ?thesis by auto
  next
    fix m0 es1 m e
    assume mn: "main w a r = (es0 @ es1, Inl e)" and rm: "resume_model w a m0 = (es1, Inr m)"
    from quiet1[OF rm] quiet0 mn show ?thesis by auto
  next
    fix m0 es1 m tld es2 e
    assume mn: "main w a r = (es0 @ es1 @ es2, Inl e)"
      and rm: "resume_model w a m0 = (es1, Inr m)"
      and et: "eval_or_train w a tld m = (es2, Inl e)"
    from quiet1[OF rm] quiet2[OF et] quiet0 mn show ?thesis by auto
  qed
  have 1: "OptimizerStep \<notin> set (fst (main w a r))" using quiet by blast
  have 2: "filter is_save (fst (main w a r)) = []"
    using quiet by (auto simp: filter_empty_conv)
  have 3: "ModelTrain \<notin> set (fst (main w a r))" using quiet by blast
  have 4: "\<forall>x \<in> set (fst (main w a r)). \<forall>t v e. x \<noteq> AddScalar t v e" using quiet by blast
  have 5: "snd (main w a r) \<noteq> Inr ()" using main_shape by auto
  have 6: "main w a r = (es0' @ es1 @ [ModelEval, Print (TestAccuracy acc)], Inl (SystemExit 0))
          \<and> exit_status (snd (main w a r)) = 0"
    if "construct_model w a r = (es0', Inr m0)" "resume_model w a m0 = (es1, Inr m)"
      "prepare_data w a = Inr tld"
      "evaluate (forward w False m) tld 0 CrossEntropyLoss False = ([ModelEval] :: 'p event list, Inr acc)"
    for es0' m0 es1 m tld acc
    using that assms by (simp add: main_def eval_or_train_def exit_status_def)
  from 1 2 3 4 5 6 show ?thesis by blast
qed

text \<open>
  A run with \<^verbatim>\<open>--resume\<close> takes one of four courses: it ends during the set-up or at a
  missing checkpoint file; it ends at a checkpoint that does not fit the model; it ends while
  the data is prepared, after the load; or it evaluates or trains the loaded state.
\<close>

lemma main_after_construct:
  assumes c: "construct_model w a r = (es0, Inr m0)"
  shows "main w a r =
     (case resume_model w a m0 of
        (es1, Inl e) \<Rightarrow> (es0 @ es1, Inl e)
      | (es1, Inr m) \<Rightarrow>
          (case prepare_data w a of
             Inl e \<Rightarrow> (es0 @ es1, Inl e)
           | Inr tld \<Rightarrow> (es0 @ es1 @ fst (eval_or_train w a tld m), snd (eval_or_train w a tld m))))"
  using c by (simp add: main_def split: prod.splits sum.splits)

lemma resumed_run_cases:
  fixes w :: "('c, 'm, 'p) world"
  assumes "resume a"
  shows "(\<exists>es e. main w a r = (es, Inl e) \<and> set es \<subseteq> {InitProcessGroup})
    \<or> (\<exists>sd m0. files w (model_filepath a) = Some sd
           \<and> construct_model w a r = ([InitProcessGroup], Inr m0)
           \<and> load_state_dict w m0 sd = None
           \<and> main w a r =
               ([InitProcessGroup,
                 TorchLoad (model_filepath a) [(''cuda:0'', cuda_device (local_rank a))]],
                Inl RuntimeError))
    \<or> (\<exists>sd m0 m e. files w (model_filepath a) = Some sd
           \<and> construct_model w a r = ([InitProcessGroup], Inr m0)
           \<and> load_state_dict w m0 sd = Some m
           \<and> prepare_data w a = Inl e
           \<and> main w a r =
               ([InitProcessGroup,
                 TorchLoad (model_filepath a) [(''cuda:0'', cuda_device (local_rank a))],
                 LoadStateDict sd], Inl e))
    \<or> (\<exists>sd m0 m tld. files w (model_filepath a) = Some sd
           \<and> construct_model w a r = ([InitProcessGroup], Inr m0)
           \<and> load_state_dict w m0 sd = Some m
           \<and> prepare_data w a = Inr tld
           \<and> main w a r =
               (InitProcessGroup
                  # TorchLoad (model_filepath a) [(''cuda:0'', cuda_device (local_rank a))]
                  # LoadStateDict sd # fst (eval_or_train w a tld m),
                snd (eval_or_train w a tld m)))"
proof -
  obtain es0 x0 where c: "construct_model w a r = (es0, x0)" by (cases "construct_model w a r")
  note co = construct_model_outcomes[OF c]
  show ?thesis
  proof (cases x0)
    case (Inl e)
    with c co have "main w a r = (es0, Inl e)" "set es0 \<subseteq> {InitProcessGroup}"
      by (simp_all add: main_def)
    then show ?thesis by blast
  next
    case (Inr m0)
    with co have es0: "es0 = [InitProcessGroup]" by simp
    note c' = c[unfolded Inr es0]
    note mn = main_after_construct[OF c']
    show ?thesis
    proof (cases "files w (model_filepath a)")
      case None
      with assms mn have "main w a r = ([InitProcessGroup], Inl FileNotFoundError)"
        by (simp add: resume_model_def)
      then show ?thesis by auto
    next
      case (Some sd)
      show ?thesis
      proof (cases "load_state_dict w m0 sd")
        case None
        with assms mn Some have "main w a r =
               ([InitProcessGroup,
                 TorchLoad (model_filepath a) [(''cuda:0'', cuda_device (local_rank a))]],
                Inl RuntimeError)"
          by (simp add: resume_model_def)
        with Some c' None show ?thesis by blast
      next
        case m: (Some m)
        show ?thesis
        proof (cases "prepare_data w a")
          case (Inl e)
          with assms mn Some m have "main w a r =
               ([InitProcessGroup,
                 TorchLoad (model_filepath a) [(''cuda:0'', cuda_device (local_rank a))],
                 LoadStateDict sd], Inl e)"
            by (simp add: resume_model_def)
          with Some c' m Inl show ?thesis by blast
        next
          case (Inr tld)
          with assms mn Some m have "main w a r =
               (InitProcessGroup
                  # TorchLoad (model_filepath a) [(''cuda:0'', cuda_device (local_rank a))]
                  # LoadStateDict sd # fst (eval_or_train w a tld m),
                snd (eval_or_train w a tld m))"
            by (simp add: resume_model_def)
          with Some c' m Inr show ?thesis by blast
        qed
      qed
    qed
  qed
qed

text \<open>
  Claim C7. With \<^verbatim>\<open>--resume\<close> and no file at the checkpoint path, the run ends with an
  exception and the status \<open>1\<close> before any training, evaluation or load: with
  \<^verbatim>\<open>FileNotFoundError\<close> once the model is constructed. With a file there, the load comes
  right after the set-up, with \<^verbatim>\<open>cuda:0\<close> mapped to the device of the local rank; a
  checkpoint that fits the model is loaded and evaluation and training start from the loaded
  state, and one that does not fit ends the run with \<^verbatim>\<open>RuntimeError\<close> and the status
  \<open>1\<close> right after the read. A run that has any effect beyond the set-up and the load, or
  that ends normally, has loaded the state of the file and works on that state: no run with
  \<^verbatim>\<open>--resume\<close> trains or evaluates the freshly constructed model.
\<close>

theorem resume_loads_or_fails:
  fixes w :: "('c, 'm, 'p) world"
  assumes "resume a"
  shows "(files w (model_filepath a) = None \<longrightarrow>
            set (fst (main w a r)) \<subseteq> {InitProcessGroup}
            \<and> (\<exists>e. snd (main w a r) = Inl e \<and> (e = FileNotFoundError \<or> e = RuntimeError \<or> e = ValueError))
            \<and> exit_status (snd (main w a r)) = 1
            \<and> (\<forall>m0. construct_model w a r = ([InitProcessGroup], Inr m0) \<longrightarrow>
                  main w a r = ([InitProcessGroup], Inl FileNotFoundError)))
       \<and> (\<forall>sd m0. files w (model_filepath a) = Some sd \<longrightarrow>
            construct_model w a r = ([InitProcessGroup], Inr m0) \<longrightarrow>
            (\<exists>i rest. local_rank a = Some i
               \<and> fst (main w a r) = InitProcessGroup
                    # TorchLoad (model_filepath a) [(''cuda:0'', ''cuda:'' @ str_int i)] # rest)
            \<and> (\<forall>m tld. load_state_dict w m0 sd = Some m \<longrightarrow> prepare_data w a = Inr tld \<longrightarrow>
                  main w a r =
                    (InitProcessGroup
                       # TorchLoad (model_filepath a) [(''cuda:0'', cuda_device (local_rank a))]
                       # LoadStateDict sd # fst (eval_or_train w a tld m),
                     snd (eval_or_train w a tld m)))
            \<and> (load_state_dict w m0 sd = None \<longrightarrow>
                  main w a r =
                    ([InitProcessGroup,
                      TorchLoad (model_filepath a) [(''cuda:0'', cuda_device (local_rank a))]],
                     Inl RuntimeError)
                  \<and> exit_status (snd (main w a r)) = 1))
       \<and> (\<not> list_all is_setup (fst (main w a r)) \<or> snd (main w a r) = Inr () \<longrightarrow>
            (\<exists>sd m0 m tld. files w (model_filepath a) = Some sd
               \<and> construct_model w a r = ([InitProcessGroup], Inr m0)
               \<and> load_state_dict w m0 sd = Some m
               \<and> prepare_data w a = Inr tld
               \<and> main w a r =
                   (InitProcessGroup
                      # TorchLoad (model_filepath a) [(''cuda:0'', cuda_device (local_rank a))]
                      # LoadStateDict sd # fst (eval_or_train w a tld m),
                    snd (eval_or_train w a tld m))))"
proof (intro conjI allI impI)
  assume none: "files w (model_filepath a) = None"
  obtain es0 x0 where c: "construct_model w a r = (es0, x0)" by (cases "construct_model w a r")
  note co = construct_model_outcomes[OF c]
  have m: "main w a r = (es0, case x0 of Inl e \<Rightarrow> Inl e | Inr m0 \<Rightarrow> Inl FileNotFoundError)"
    using c none assms by (cases x0) (simp_all add: main_def resume_model_def)
  show "set (fst (main w a r)) \<subseteq> {InitProcessGroup}" using m co by simp
  show "\<exists>e. snd (main w a r) = Inl e \<and> (e = FileNotFoundError \<or> e = RuntimeError \<or> e = ValueError)"
    using m co by (cases x0) auto
  show "exit_status (snd (main w a r)) = 1"
    using m co by (cases x0) (auto simp: exit_status_def)
  show "main w a r = ([InitProcessGroup], Inl FileNotFoundError)"
    if "construct_model w a r = ([InitProcessGroup], Inr m0)" for m0
    using that none assms by (simp add: main_def resume_model_def)
next
  fix sd m0
  assume some: "files w (model_filepath a) = Some sd"
    and c: "construct_model w a r = ([InitProcessGroup], Inr m0)"
  from construct_model_outcomes[OF c] obtain i where i: "local_rank a = Some i" by auto
  obtain es1 x1 where rm: "resume_model w a m0 = (es1, x1)" by (cases "resume_model w a m0")
  from resume_model_outcomes[OF rm] assms some i
  obtain rest1 where es1: "es1 = TorchLoad (model_filepath a) [(''cuda:0'', ''cuda:'' @ str_int i)] # rest1"
    by (auto simp: cuda_device_def split: option.splits)
  have "\<exists>rest. fst (main w a r) = InitProcessGroup # es1 @ rest"
    using c rm by (auto simp: main_def split: sum.splits prod.splits)
  with es1 i show "\<exists>i rest. local_rank a = Some i
               \<and> fst (main w a r) = InitProcessGroup
                    # TorchLoad (model_filepath a) [(''cuda:0'', ''cuda:'' @ str_int i)] # rest"
    by auto
next
  fix sd m0 m tld
  assume some: "files w (model_filepath a) = Some sd"
    and c: "construct_model w a r = ([InitProcessGroup], Inr m0)"
    and l: "load_state_dict w m0 sd = Some m"
    and p: "prepare_data w a = Inr tld"
  show "main w a r =
          (InitProcessGroup
             # TorchLoad (model_filepath a) [(''cuda:0'', cuda_device (local_rank a))]
             # LoadStateDict sd # fst (eval_or_train w a tld m),
           snd (eval_or_train w a tld m))"
    using some c l p assms
    by (simp add: main_def resume_model_def split: prod.splits)
next
  fix sd m0
  assume some: "files w (model_filepath a) = Some sd"
    and c: "construct_model w a r = ([InitProcessGroup], Inr m0)"
    and l: "load_state_dict w m0 sd = None"
  show u: "main w a r =
          ([InitProcessGroup,
            TorchLoad (model_filepath a) [(''cuda:0'', cuda_device (local_rank a))]],
           Inl RuntimeError)"
    using some c l assms by (simp add: main_def resume_model_def)
  show "exit_status (snd (main w a r)) = 1"
    unfolding u by (simp add: exit_status_def)
next
  assume started: "\<not> list_all is_setup (fst (main w a r)) \<or> snd (main w a r) = Inr ()"
  from resumed_run_cases[OF assms, of w r]
  show "\<exists>sd m0 m tld. files w (model_filepath a) = Some sd
               \<and> construct_model w a r = ([InitProcessGroup], Inr m0)
               \<and> load_state_dict w m0 sd = Some m
               \<and> prepare_data w a = Inr tld
               \<and> main w a r =
                   (InitProcessGroup
                      # TorchLoad (model_filepath a) [(''cuda:0'', cuda_device (local_rank a))]
                      # LoadStateDict sd # fst (eval_or_train w a tld m),
                    snd (eval_or_train w a tld m))"
  proof (elim disjE exE conjE)
    fix es e assume "main w a r = (es, Inl e)" "set es \<subseteq> {InitProcessGroup}"
    with started show ?thesis by (auto simp: list_all_iff)
  next
    fix sd m0
    assume "main w a r =
               ([InitProcessGroup,
                 TorchLoad (model_filepath a) [(''cuda:0'', cuda_device (local_rank a))]],
                Inl RuntimeError)"
    with started show ?thesis by simp
  next
    fix sd m0 m e
    assume "main w a r =
               ([InitProcessGroup,
                 TorchLoad (model_filepath a) [(''cuda:0'', cuda_device (local_rank a))],
                 LoadStateDict sd], Inl e)"
    with started show ?thesis by simp
  next
    fix sd m0 m tld
    assume "files w (model_filepath a) = Some sd"
      "construct_model w a r = ([InitProcessGroup], Inr m0)"
      "load_state_dict w m0 sd = Some m"
      "prepare_data w a = Inr tld"
      "main w a r =
               (InitProcessGroup
                  # TorchLoad (model_filepath a) [(''cuda:0'', cuda_device (local_rank a))]
                  # LoadStateDict sd # fst (eval_or_train w a tld m),
                snd (eval_or_train w a tld m))"
    then show ?thesis by blast
  qed
qed

section \<open>The program on concrete inputs\<close>

text \<open>
  With the default file name \<open>resnet_distributed.pth\<close> and directory, the path in the mode
  \<^verbatim>\<open>energy\<close> has the suffix before the extension, and the three paths differ.
\<close>

lemma checkpoint_path_suffix_default:
  "model_filepath (default_argv\<lparr>score := ''energy''\<rparr>) = ''saved_models/resnet_distributed_energy.pth''
   \<and> model_filepath (default_argv\<lparr>score := ''energy''\<rparr>)
       = checkpoint_path_spec (default_argv\<lparr>score := ''energy''\<rparr>)
   \<and> model_filepath (default_argv\<lparr>score := ''energy''\<rparr>)
       \<noteq> model_filepath (default_argv\<lparr>score := ''OE''\<rparr>)
   \<and> model_filepath (default_argv\<lparr>score := ''None''\<rparr>)
       \<noteq> model_filepath (default_argv\<lparr>score := ''energy''\<rparr>)
   \<and> model_filepath (default_argv\<lparr>score := ''None''\<rparr>)
       \<noteq> model_filepath (default_argv\<lparr>score := ''OE''\<rparr>)"
  using checkpoint_path_suffix[of "''resnet_distributed''" "default_argv\<lparr>score := ''energy''\<rparr>" "''None''"]
  by (simp add: default_argv_def os_path_join_def checkpoint_path_spec_def
      suffixed_before_extension_def model_filepath_def checkpoint_filename_def)

text \<open>
  Claim C8. The suffix of the mode is to stand before the extension of the configured file
  name. Lines 83 and 85 cut the file name with \<^verbatim>\<open>rsplit('.')[0]\<close>, which has no maximal
  number of splits and keeps only what stands before the first dot. With the file name
  \<open>resnet.v2.pth\<close> in the mode \<^verbatim>\<open>energy\<close> the program therefore writes to
  \<open>saved_models/resnet_energy.pth\<close> and not to \<open>saved_models/resnet.v2_energy.pth\<close>, and the
  file names \<open>resnet.v1.pth\<close> and \<open>resnet.v2.pth\<close>, which give two paths without a mode,
  give one and the same path in the mode \<^verbatim>\<open>energy\<close> and in the mode \<^verbatim>\<open>OE\<close>.
\<close>

theorem checkpoint_suffix_not_before_extension:
  "model_filepath (default_argv\<lparr>model_filename := ''resnet.v2.pth'', score := ''energy''\<rparr>)
     = ''saved_models/resnet_energy.pth''
   \<and> checkpoint_path_spec (default_argv\<lparr>model_filename := ''resnet.v2.pth'', score := ''energy''\<rparr>)
     = ''saved_models/resnet.v2_energy.pth''
   \<and> model_filepath (default_argv\<lparr>model_filename := ''resnet.v2.pth'', score := ''energy''\<rparr>)
     \<noteq> checkpoint_path_spec (default_argv\<lparr>model_filename := ''resnet.v2.pth'', score := ''energy''\<rparr>)
   \<and> model_filepath (default_argv\<lparr>model_filename := ''resnet.v1.pth'', score := ''energy''\<rparr>)
     = model_filepath (default_argv\<lparr>model_filename := ''resnet.v2.pth'', score := ''energy''\<rparr>)
   \<and> model_filepath (default_argv\<lparr>model_filename := ''resnet.v1.pth'', score := ''OE''\<rparr>)
     = model_filepath (default_argv\<lparr>model_filename := ''resnet.v2.pth'', score := ''OE''\<rparr>)
   \<and> model_filepath (default_argv\<lparr>model_filename := ''resnet.v1.pth'', score := ''None''\<rparr>)
     \<noteq> model_filepath (default_argv\<lparr>model_filename := ''resnet.v2.pth'', score := ''None''\<rparr>)"
  by (simp add: default_argv_def model_filepath_def checkpoint_filename_def os_path_join_def
      checkpoint_path_spec_def suffixed_before_extension_def)

text \<open>
  The misspelling \<^verbatim>\<open>Energy\<close> on the small machine.
\<close>

theorem unrecognized_score_is_plain_training_witness:
  "regularization ''Energy'' [[()]] [[0, 0]] = Inr None
   \<and> batch_loss CrossEntropyLoss ''Energy'' [[()]] [0] [[0, 0]] = Inr (Some (ln 2))
   \<and> checkpoint_filename (default_argv\<lparr>score := ''Energy''\<rparr>) = ''resnet_distributed.pth''
   \<and> model_filepath (default_argv\<lparr>score := ''Energy''\<rparr>) = ''saved_models/resnet_distributed.pth''
   \<and> main (small_world Map.empty) (default_argv\<lparr>score := ''Energy''\<rparr>) unseeded
       = main (small_world Map.empty) (default_argv\<lparr>score := ''None''\<rparr>) unseeded"
  using unrecognized_score_is_plain_training[of "default_argv\<lparr>score := ''Energy''\<rparr>" "[[()]]" "[[0, 0]]"
      CrossEntropyLoss "[0]" "small_world Map.empty" unseeded]
  by (simp add: default_argv_def os_path_join_def CrossEntropyLoss_def mean_def
      model_filepath_def checkpoint_filename_def)


lemma small_train_loader:
  assumes "batch_size a = 2"
  shows "batches (train_loader (small_world fs) a e) = [([[()], [()]], [0, Suc 0])]"
    and "sampler_len (train_loader (small_world fs) a e) = 2"
  using assms by (simp_all add: small_world_def train_loader_def make_loader_def chunks.simps)

lemma small_ce: "CrossEntropyLoss [[0, 0], [0, 0]] [0, Suc 0] = Inr (Some (ln 2))"
  by (simp add: CrossEntropyLoss_def mean_def)

lemma small_evaluate:
  "evaluate (forward (small_world fs) False m) \<lparr>batches = [([[()], [()]], [0, Suc 0])], sampler_len = 2\<rparr>
      e CrossEntropyLoss wr
     = (ModelEval # (if wr then [AddScalar ''Loss/test'' (Some (ln 2 / 2)) e,
                                  AddScalar ''Accuracy/test'' (Some (1 / 2)) e] else []), Inr (1 / 2))"
  by (simp add: evaluate_def evaluate_locals_def small_world_def torch_max1_def argmax_def
      count_equal_def small_ce sadd_def normalize_def sdiv_def)

lemma small_train_batches:
  "train_batches (small_world fs) ''None'' [([[()], [()]], [0, Suc 0])] (m, Some 0)
     = ([OptimizerStep], Inr (Suc m, Some (ln 2)))"
  by (simp add: small_world_def batch_loss_def regularization_def small_ce sadd_def)

lemma small_epoch:
  assumes "score a = ''None''" "batch_size a = 2" "model_dir a = ''saved_models''"
    "model_filename a = ''resnet_distributed.pth''"
  shows "train_epoch (small_world fs) a
      \<lparr>batches = [([[()], [()]], [0, Suc 0])], sampler_len = 2\<rparr> e m
   = (if e mod 10 = 0 \<and> local_rank a = Some 0
      then [Print (Training (local_rank a) e), ModelEval,
            AddScalar ''Loss/test'' (Some (ln 2 / 2)) e,
            AddScalar ''Accuracy/test'' (Some (1 / 2)) e,
            TorchSave m ''saved_models/resnet_distributed.pth'', Print Dashes,
            Print (EpochAccuracy e (1 / 2)), Print Dashes, ModelTrain, OptimizerStep,
            AddScalar ''Loss/train'' (Some (ln 2 / 2)) e]
      else [Print (Training (local_rank a) e), ModelTrain, OptimizerStep,
            AddScalar ''Loss/train'' (Some (ln 2 / 2)) e], Inr (Suc m))"
proof -
  have p: "model_filepath a = ''saved_models/resnet_distributed.pth''"
    using assms by (simp add: model_filepath_def checkpoint_filename_def os_path_join_def)
  have sd: "state_dict (small_world fs) m = m"
    "writable (small_world fs) ''saved_models/resnet_distributed.pth'' = True"
    by (simp_all add: small_world_def)
  show ?thesis
    unfolding train_epoch_def periodic_def small_train_loader[OF assms(2)] small_evaluate p
      assms(1) small_train_batches sd
    by (simp add: normalize_def sdiv_def)
qed

lemma small_construct:
  assumes "random_seed a = 0" "local_rank a = Some i" "0 \<le> i" "i < 2"
  shows "construct_model (small_world fs) a unseeded = ([InitProcessGroup], Inr 0)"
  using assms by (simp add: construct_model_def set_random_seeds_def small_world_def)

lemma small_prepare:
  assumes "0 < batch_size a" "0 \<le> learning_rate a"
  shows "prepare_data (small_world fs) a
     = Inr \<lparr>batches = [([[()], [()]], [0, Suc 0])], sampler_len = 2\<rparr>"
  using assms
  by (simp add: prepare_data_def DataLoader_def small_world_def make_loader_def chunks.simps)

text \<open>
  Two epochs on local rank \<open>0\<close> of the small machine: epoch \<open>0\<close> evaluates and then
  writes the checkpoint, epoch \<open>1\<close> does neither.
\<close>

theorem periodic_eval_then_save_witness:
  "run_epochs (small_world Map.empty) (default_argv\<lparr>local_rank := Some 0, batch_size := 2\<rparr>)
      \<lparr>batches = [([[()], [()]], [0, 1])], sampler_len = 2\<rparr> [0..<2] 0
     = ([[Print (Training (Some 0) 0), ModelEval, AddScalar ''Loss/test'' (Some (ln 2 / 2)) 0,
          AddScalar ''Accuracy/test'' (Some (1 / 2)) 0,
          TorchSave 0 ''saved_models/resnet_distributed.pth'', Print Dashes,
          Print (EpochAccuracy 0 (1 / 2)), Print Dashes, ModelTrain, OptimizerStep,
          AddScalar ''Loss/train'' (Some (ln 2 / 2)) 0],
         [Print (Training (Some 0) 1), ModelTrain, OptimizerStep,
          AddScalar ''Loss/train'' (Some (ln 2 / 2)) 1]], Inr 2)
   \<and> (0::nat) mod 10 = 0
   \<and> local_rank (default_argv\<lparr>local_rank := Some 0, batch_size := 2\<rparr>) = Some 0
   \<and> model_filepath (default_argv\<lparr>local_rank := Some 0, batch_size := 2\<rparr>)
       = ''saved_models/resnet_distributed.pth''"
proof -
  let ?a = "default_argv\<lparr>local_rank := Some 0, batch_size := 2\<rparr>"
  have a: "score ?a = ''None''" "batch_size ?a = 2" "model_dir ?a = ''saved_models''"
    "model_filename ?a = ''resnet_distributed.pth''"
    by (simp_all add: default_argv_def)
  have run: "run_epochs (small_world Map.empty) ?a
      \<lparr>batches = [([[()], [()]], [0, 1])], sampler_len = 2\<rparr> [0..<2] 0
     = ([[Print (Training (Some 0) 0), ModelEval, AddScalar ''Loss/test'' (Some (ln 2 / 2)) 0,
          AddScalar ''Accuracy/test'' (Some (1 / 2)) 0,
          TorchSave 0 ''saved_models/resnet_distributed.pth'', Print Dashes,
          Print (EpochAccuracy 0 (1 / 2)), Print Dashes, ModelTrain, OptimizerStep,
          AddScalar ''Loss/train'' (Some (ln 2 / 2)) 0],
         [Print (Training (Some 0) 1), ModelTrain, OptimizerStep,
          AddScalar ''Loss/train'' (Some (ln 2 / 2)) 1]], Inr 2)"
    by (simp add: upt_rec small_epoch[OF a])
  from periodic_eval_then_save[OF run] run
  show ?thesis
    by (simp add: default_argv_def model_filepath_def checkpoint_filename_def os_path_join_def)
qed

text \<open>
  One epoch on local rank \<open>1\<close> of the small machine: one batch of two examples with the
  loss \<open>ln 2\<close>, written to the sink as \<open>ln 2 / 2\<close>.
\<close>

theorem train_loss_logged_every_epoch_witness:
  "run_epochs (small_world Map.empty) (default_argv\<lparr>local_rank := Some 1, batch_size := 2\<rparr>)
      \<lparr>batches = [([[()], [()]], [0, 1])], sampler_len = 2\<rparr> [0..<1] 0
     = ([[Print (Training (Some 1) 0), ModelTrain, OptimizerStep,
          AddScalar ''Loss/train'' (Some (ln 2 / 2)) 0]], Inr 1)
   \<and> 0 < batch_size (default_argv\<lparr>local_rank := Some 1, batch_size := 2\<rparr>)
   \<and> sampler_len (train_loader (small_world Map.empty)
         (default_argv\<lparr>local_rank := Some 1, batch_size := 2\<rparr>) 0) = 2
   \<and> length (batches (train_loader (small_world Map.empty)
         (default_argv\<lparr>local_rank := Some 1, batch_size := 2\<rparr>) 0)) = 1"
proof -
  let ?a = "default_argv\<lparr>local_rank := Some 1, batch_size := 2\<rparr>"
  have a: "score ?a = ''None''" "batch_size ?a = 2" "model_dir ?a = ''saved_models''"
    "model_filename ?a = ''resnet_distributed.pth''"
    by (simp_all add: default_argv_def)
  have run: "run_epochs (small_world Map.empty) ?a
      \<lparr>batches = [([[()], [()]], [0, 1])], sampler_len = 2\<rparr> [0..<1] 0
     = ([[Print (Training (Some 1) 0), ModelTrain, OptimizerStep,
          AddScalar ''Loss/train'' (Some (ln 2 / 2)) 0]], Inr 1)"
    by (simp add: upt_rec small_epoch[OF a])
  have bs: "0 < batch_size ?a" by (simp add: default_argv_def)
  from train_loss_logged_every_epoch[OF run bs] run bs
  show ?thesis
    by (simp add: small_train_loader[OF a(2)])
qed

text \<open>
  The small machine with \<^verbatim>\<open>--eval\<close>: half of the test examples are classified
  correctly, and the run ends with the status \<open>0\<close>.
\<close>

theorem eval_flag_only_evaluates_witness:
  "main (small_world Map.empty) (default_argv\<lparr>local_rank := Some 0, eval := True\<rparr>) unseeded
     = ([InitProcessGroup, ModelEval, Print (TestAccuracy (1 / 2))], Inl (SystemExit 0))
   \<and> exit_status (snd (main (small_world Map.empty)
         (default_argv\<lparr>local_rank := Some 0, eval := True\<rparr>) unseeded)) = 0"
proof -
  let ?a = "default_argv\<lparr>local_rank := Some 0, eval := True\<rparr>"
  let ?w = "small_world Map.empty"
  have e: "eval ?a" by simp
  have c: "construct_model ?w ?a unseeded = ([InitProcessGroup], Inr 0)"
    by (rule small_construct[of _ 0]) (simp_all add: default_argv_def)
  have r: "resume_model ?w ?a 0 = ([], Inr 0)" by (simp add: resume_model_def default_argv_def)
  have p: "prepare_data ?w ?a = Inr \<lparr>batches = [([[()], [()]], [0, Suc 0])], sampler_len = 2\<rparr>"
    by (rule small_prepare) (simp_all add: default_argv_def)
  have v: "evaluate (forward ?w False 0) \<lparr>batches = [([[()], [()]], [0, Suc 0])], sampler_len = 2\<rparr>
      0 CrossEntropyLoss False = ([ModelEval] :: nat event list, Inr (1 / 2))"
    by (simp add: small_evaluate)
  note t = eval_flag_only_evaluates[OF e, of ?w unseeded, THEN conjunct2, THEN conjunct2,
      THEN conjunct2, THEN conjunct2, THEN conjunct2, rule_format, OF c r p v]
  from t show ?thesis by (simp add: exit_status_def)
qed

text \<open>
  The small machine with \<^verbatim>\<open>--resume\<close> on local rank \<open>1\<close>: without a checkpoint file the
  run ends with \<^verbatim>\<open>FileNotFoundError\<close>; with one that fits, the load comes first and the
  training continues from the loaded state; with one that the model refuses, the run ends
  with \<^verbatim>\<open>RuntimeError\<close> after the read and trains nothing.
\<close>

theorem resume_loads_or_fails_witness:
  "main (small_world Map.empty)
      (default_argv\<lparr>local_rank := Some 1, resume := True, num_epochs := 1, batch_size := 2\<rparr>)
      unseeded
     = ([InitProcessGroup], Inl FileNotFoundError)
   \<and> main (small_world [''saved_models/resnet_distributed.pth'' \<mapsto> 5])
      (default_argv\<lparr>local_rank := Some 1, resume := True, num_epochs := 1, batch_size := 2\<rparr>)
      unseeded
     = ([InitProcessGroup,
         TorchLoad ''saved_models/resnet_distributed.pth'' [(''cuda:0'', ''cuda:1'')],
         LoadStateDict 5, Print (Training (Some 1) 0), ModelTrain, OptimizerStep,
         AddScalar ''Loss/train'' (Some (ln 2 / 2)) 0, WriterClose], Inr ())
   \<and> main ((small_world [''saved_models/resnet_distributed.pth'' \<mapsto> 5])
              \<lparr>load_state_dict := (\<lambda>m sd. if sd = 5 then None else Some sd)\<rparr>)
      (default_argv\<lparr>local_rank := Some 1, resume := True, num_epochs := 1, batch_size := 2\<rparr>)
      unseeded
     = ([InitProcessGroup,
         TorchLoad ''saved_models/resnet_distributed.pth'' [(''cuda:0'', ''cuda:1'')]],
        Inl RuntimeError)
   \<and> exit_status (snd (main ((small_world [''saved_models/resnet_distributed.pth'' \<mapsto> 5])
              \<lparr>load_state_dict := (\<lambda>m sd. if sd = 5 then None else Some sd)\<rparr>)
      (default_argv\<lparr>local_rank := Some 1, resume := True, num_epochs := 1, batch_size := 2\<rparr>)
      unseeded)) = 1
   \<and> (\<exists>m0 m tld.
         construct_model (small_world [''saved_models/resnet_distributed.pth'' \<mapsto> 5])
           (default_argv\<lparr>local_rank := Some 1, resume := True, num_epochs := 1, batch_size := 2\<rparr>)
           unseeded = ([InitProcessGroup], Inr m0)
         \<and> load_state_dict (small_world [''saved_models/resnet_distributed.pth'' \<mapsto> 5]) m0 5 = Some m
         \<and> fst (main (small_world [''saved_models/resnet_distributed.pth'' \<mapsto> 5])
              (default_argv\<lparr>local_rank := Some 1, resume := True, num_epochs := 1, batch_size := 2\<rparr>)
              unseeded)
            = InitProcessGroup
                # TorchLoad ''saved_models/resnet_distributed.pth'' [(''cuda:0'', ''cuda:1'')]
                # LoadStateDict 5
                # fst (eval_or_train (small_world [''saved_models/resnet_distributed.pth'' \<mapsto> 5])
                       (default_argv\<lparr>local_rank := Some 1, resume := True, num_epochs := 1, batch_size := 2\<rparr>)
                       tld m))"
proof -
  let ?a = "default_argv\<lparr>local_rank := Some 1, resume := True, num_epochs := 1, batch_size := 2\<rparr>"
  let ?w0 = "small_world Map.empty"
  let ?w1 = "small_world [''saved_models/resnet_distributed.pth'' \<mapsto> 5]"
  let ?w2 = "?w1\<lparr>load_state_dict := (\<lambda>m sd. if sd = 5 then None else Some sd)\<rparr>"
  have a: "score ?a = ''None''" "batch_size ?a = 2" "model_dir ?a = ''saved_models''"
    "model_filename ?a = ''resnet_distributed.pth''"
    by (simp_all add: default_argv_def)
  have rs: "resume ?a" by simp
  have path: "model_filepath ?a = ''saved_models/resnet_distributed.pth''"
    by (simp add: model_filepath_def checkpoint_filename_def os_path_join_def default_argv_def)
  have c0: "construct_model ?w0 ?a unseeded = ([InitProcessGroup], Inr 0)"
    by (rule small_construct[of _ 1]) (simp_all add: default_argv_def)
  have c1: "construct_model ?w1 ?a unseeded = ([InitProcessGroup], Inr 0)"
    by (rule small_construct[of _ 1]) (simp_all add: default_argv_def)
  have c2: "construct_model ?w2 ?a unseeded = ([InitProcessGroup], Inr 0)"
    by (simp add: construct_model_def set_random_seeds_def small_world_def default_argv_def)
  have f0: "files ?w0 (model_filepath ?a) = None" by (simp add: small_world_def)
  have f1: "files ?w1 (model_filepath ?a) = Some 5" by (simp add: small_world_def path)
  have f2: "files ?w2 (model_filepath ?a) = Some 5" by (simp add: small_world_def path)
  have l1: "load_state_dict ?w1 0 5 = Some 5" by (simp add: small_world_def)
  have l2: "load_state_dict ?w2 0 5 = None" by simp
  have p1: "prepare_data ?w1 ?a = Inr \<lparr>batches = [([[()], [()]], [0, Suc 0])], sampler_len = 2\<rparr>"
    by (rule small_prepare) (simp_all add: default_argv_def)
  have dev: "cuda_device (Some 1) = ''cuda:1''"
    by (simp add: cuda_device_def str_int_def digits.simps)
  have tr: "eval_or_train ?w1 ?a \<lparr>batches = [([[()], [()]], [0, Suc 0])], sampler_len = 2\<rparr> 5
      = ([Print (Training (Some 1) 0), ModelTrain, OptimizerStep,
          AddScalar ''Loss/train'' (Some (ln 2 / 2)) 0, WriterClose], Inr ())"
  proof -
    have ev: "\<not> eval ?a" "num_epochs ?a = 1" by (simp_all add: default_argv_def)
    show ?thesis
      unfolding eval_or_train_def using ev by (simp add: upt_rec small_epoch[OF a])
  qed
  note n = resume_loads_or_fails[OF rs, of ?w0 unseeded, THEN conjunct1, rule_format, OF f0,
      THEN conjunct2, THEN conjunct2, THEN conjunct2, rule_format, OF c0]
  note s = resume_loads_or_fails[OF rs, of ?w1 unseeded, THEN conjunct2, THEN conjunct1,
      rule_format, OF f1 c1, THEN conjunct2, THEN conjunct1, rule_format, OF l1 p1]
  note u = resume_loads_or_fails[OF rs, of ?w2 unseeded, THEN conjunct2, THEN conjunct1,
      rule_format, OF f2 c2, THEN conjunct2, THEN conjunct2, rule_format, OF l2]
  have s': "main ?w1 ?a unseeded
     = ([InitProcessGroup,
         TorchLoad ''saved_models/resnet_distributed.pth'' [(''cuda:0'', ''cuda:1'')],
         LoadStateDict 5, Print (Training (Some 1) 0), ModelTrain, OptimizerStep,
         AddScalar ''Loss/train'' (Some (ln 2 / 2)) 0, WriterClose], Inr ())"
    using s by (simp add: path dev tr)
  have started: "\<not> list_all is_setup (fst (main ?w1 ?a unseeded)) \<or> snd (main ?w1 ?a unseeded) = Inr ()"
    unfolding s' by simp
  note t = resume_loads_or_fails[OF rs, of ?w1 unseeded, THEN conjunct2, THEN conjunct2,
      rule_format, OF started]
  have t': "\<exists>m0 m tld.
         construct_model ?w1 ?a unseeded = ([InitProcessGroup], Inr m0)
         \<and> load_state_dict ?w1 m0 5 = Some m
         \<and> fst (main ?w1 ?a unseeded)
            = InitProcessGroup
                # TorchLoad ''saved_models/resnet_distributed.pth'' [(''cuda:0'', ''cuda:1'')]
                # LoadStateDict 5 # fst (eval_or_train ?w1 ?a tld m)"
  proof -
    from t obtain sd m0 m tld where
      1: "files ?w1 (model_filepath ?a) = Some sd"
      and 2: "construct_model ?w1 ?a unseeded = ([InitProcessGroup], Inr m0)"
      and 3: "load_state_dict ?w1 m0 sd = Some m"
      and 4: "main ?w1 ?a unseeded =
                   (InitProcessGroup
                      # TorchLoad (model_filepath ?a) [(''cuda:0'', cuda_device (local_rank ?a))]
                      # LoadStateDict sd # fst (eval_or_train ?w1 ?a tld m),
                    snd (eval_or_train ?w1 ?a tld m))"
      by blast
    from 1 f1 have sd: "sd = 5" by simp
    have lr: "local_rank ?a = Some 1" by simp
    from 4 have "fst (main ?w1 ?a unseeded)
            = InitProcessGroup
                # TorchLoad ''saved_models/resnet_distributed.pth'' [(''cuda:0'', ''cuda:1'')]
                # LoadStateDict 5 # fst (eval_or_train ?w1 ?a tld m)"
      unfolding sd path lr dev by simp
    with 2 3[unfolded sd] show ?thesis by blast
  qed
  from u have u': "main ?w2 ?a unseeded
     = ([InitProcessGroup,
         TorchLoad ''saved_models/resnet_distributed.pth'' [(''cuda:0'', ''cuda:1'')]],
        Inl RuntimeError)"
    and u'': "exit_status (snd (main ?w2 ?a unseeded)) = 1"
    by (simp_all add: path dev exit_status_def)
  from n s' u' u'' t' show ?thesis by (intro conjI)
qed

end
